theory Spec2Isabelle
  imports Complex_Main "HOL-Library.Char_ord" "HOL-Library.List_Lexorder"
begin

section \<open>Python values\<close>

text \<open>
  A Python \<open>str\<close> is held as the list of the bytes of its UTF-8 encoding, so that
  \<open>.encode()\<close> is the identity, \<open>.decode()\<close> is a validity check, and \<open>len\<close> of a
  \<open>str\<close> counts code points (the bytes that are not continuation bytes). The order
  on \<open>str\<close> is Python's: lexicographic by code point, which is the lexicographic
  order of the UTF-8 bytes. \<open>\d\<close>, \<open>int\<close>, \<open>str.upper\<close> and whitespace are modelled on
  ASCII; the digits, letters and blanks beyond ASCII that Python also accepts are
  outside this model. Clock readings \<open>time.time() * 1000\<close> are real numbers, with
  exact arithmetic in place of floating point.
\<close>

type_synonym str = string
type_synonym bytes = string

datatype error =
    ValueError | IndexError | TypeError | AssertionError | AttributeError
  | UnicodeDecodeError | StructError

datatype scalar = PNone | PInt int | PStr str

datatype item = Leaf scalar | Nested "item list"

definition crlf :: bytes where
  "crlf = [CHR 0x0D, CHR 0x0A]"

subsection \<open>Formatting and parsing integers\<close>

definition digit_char :: "nat \<Rightarrow> char" where
  "digit_char d = ''0123456789'' ! d"

function show_nat :: "nat \<Rightarrow> string" where
  "show_nat n = (if n < 10 then [digit_char n] else show_nat (n div 10) @ [digit_char (n mod 10)])"
  by pat_completeness auto
termination
  by (relation "measure id") auto

declare show_nat.simps [simp del]

definition show_int :: "int \<Rightarrow> string" where
  \<comment> \<open>\<open>str(n)\<close> and \<open>f'{n}'\<close> of a Python int\<close>
  "show_int i = (if i < 0 then CHR ''-'' # show_nat (nat (- i)) else show_nat (nat i))"

definition is_digit :: "char \<Rightarrow> bool" where
  "is_digit c = (CHR ''0'' \<le> c \<and> c \<le> CHR ''9'')"

definition digit_val :: "char \<Rightarrow> nat" where
  "digit_val c = of_char c - 48"

definition is_space :: "char \<Rightarrow> bool" where
  "is_space c = (c \<in> set [CHR 0x09, CHR 0x0A, CHR 0x0B, CHR 0x0C, CHR 0x0D,
                            CHR 0x1C, CHR 0x1D, CHR 0x1E, CHR 0x1F, CHR '' ''])"

definition strip :: "string \<Rightarrow> string" where
  "strip s = rev (dropWhile is_space (rev (dropWhile is_space s)))"

fun parse_digits :: "nat \<Rightarrow> string \<Rightarrow> nat option" where
  "parse_digits acc [] = Some acc"
| "parse_digits acc (c # cs) =
     (if is_digit c then parse_digits (10 * acc + digit_val c) cs
      else if c = CHR ''_'' then
        (case cs of
           [] \<Rightarrow> None
         | d # ds \<Rightarrow> if is_digit d then parse_digits (10 * acc + digit_val d) ds else None)
      else None)"

definition py_nat :: "string \<Rightarrow> nat option" where
  \<comment> \<open>decimal digits, single underscores allowed between them\<close>
  "py_nat s = (case s of
       [] \<Rightarrow> None
     | c # cs \<Rightarrow> if is_digit c then parse_digits (digit_val c) cs else None)"

definition py_int :: "str \<Rightarrow> error + int" where
  \<comment> \<open>\<open>int(s)\<close>: blanks around, an optional sign, then the digits\<close>
  "py_int s =
     (case strip s of
        [] \<Rightarrow> Inl ValueError
      | c # cs \<Rightarrow>
          if c = CHR ''-'' then
            (case py_nat cs of None \<Rightarrow> Inl ValueError | Some n \<Rightarrow> Inr (- int n))
          else if c = CHR ''+'' then
            (case py_nat cs of None \<Rightarrow> Inl ValueError | Some n \<Rightarrow> Inr (int n))
          else
            (case py_nat (c # cs) of None \<Rightarrow> Inl ValueError | Some n \<Rightarrow> Inr (int n)))"

subsection \<open>UTF-8\<close>

definition is_cont :: "char \<Rightarrow> bool" where
  "is_cont c = (CHR 0x80 \<le> c \<and> c \<le> CHR 0xBF)"

definition py_len :: "str \<Rightarrow> nat" where
  \<comment> \<open>\<open>len\<close> of a \<open>str\<close>: its code points\<close>
  "py_len s = length (filter (\<lambda>c. \<not> is_cont c) s)"

definition between :: "char \<Rightarrow> char \<Rightarrow> char \<Rightarrow> bool" where
  "between lo hi c = (lo \<le> c \<and> c \<le> hi)"

definition utf8_first :: "bytes \<Rightarrow> nat" where
  \<comment> \<open>the length of the well-formed sequence a buffer starts with, 0 when there is none\<close>
  "utf8_first bs =
     (case bs of
        [] \<Rightarrow> 0
      | a # r \<Rightarrow>
          if a < CHR 0x80 then 1
          else if between (CHR 0xC2) (CHR 0xDF) a then
            (case r of b # _ \<Rightarrow> if is_cont b then 2 else 0 | _ \<Rightarrow> 0)
          else if between (CHR 0xE0) (CHR 0xEF) a then
            (case r of
               b # c # _ \<Rightarrow>
                 if (if a = CHR 0xE0 then between (CHR 0xA0) (CHR 0xBF) b
                     else if a = CHR 0xED then between (CHR 0x80) (CHR 0x9F) b
                     else is_cont b) \<and> is_cont c
                 then 3 else 0
             | _ \<Rightarrow> 0)
          else if between (CHR 0xF0) (CHR 0xF4) a then
            (case r of
               b # c # d # _ \<Rightarrow>
                 if (if a = CHR 0xF0 then between (CHR 0x90) (CHR 0xBF) b
                     else if a = CHR 0xF4 then between (CHR 0x80) (CHR 0x8F) b
                     else is_cont b) \<and> is_cont c \<and> is_cont d
                 then 4 else 0
             | _ \<Rightarrow> 0)
          else 0)"

function utf8_ok :: "bytes \<Rightarrow> bool" where
  "utf8_ok bs =
     (if bs = [] then True
      else if utf8_first bs = 0 then False
      else utf8_ok (drop (utf8_first bs) bs))"
  by pat_completeness auto
termination
  by (relation "measure length") auto

declare utf8_ok.simps [simp del]

definition decode :: "bytes \<Rightarrow> error + str" where
  \<comment> \<open>\<open>bytes.decode()\<close>\<close>
  "decode bs = (if utf8_ok bs then Inr bs else Inl UnicodeDecodeError)"

subsection \<open>Slices\<close>

definition slice_to :: "'a list \<Rightarrow> int \<Rightarrow> 'a list" where
  \<comment> \<open>\<open>xs[:n]\<close>\<close>
  "slice_to xs n = (if 0 \<le> n then take (nat n) xs else take (length xs - nat (- n)) xs)"

definition slice_from :: "'a list \<Rightarrow> int \<Rightarrow> 'a list" where
  \<comment> \<open>\<open>xs[n:]\<close>\<close>
  "slice_from xs n = (if 0 \<le> n then drop (nat n) xs else drop (length xs - nat (- n)) xs)"


definition py_trunc :: "real \<Rightarrow> int" where
  \<comment> \<open>\<open>int(x)\<close> of a float: towards zero\<close>
  "py_trunc x = (if 0 \<le> x then \<lfloor>x\<rfloor> else \<lceil>x\<rceil>)"

definition upper :: "str \<Rightarrow> str" where
  \<comment> \<open>\<open>str.upper()\<close>\<close>
  "upper s = map (\<lambda>c. case map_of (zip ''abcdefghijklmnopqrstuvwxyz''
                                          ''ABCDEFGHIJKLMNOPQRSTUVWXYZ'') c of
                           None \<Rightarrow> c | Some u \<Rightarrow> u) s"

fun split_on :: "char \<Rightarrow> str \<Rightarrow> str list" where
  \<comment> \<open>\<open>s.split(c)\<close>\<close>
  "split_on c [] = [[]]"
| "split_on c (x # xs) =
     (if x = c then [] # split_on c xs
      else (case split_on c xs of
              [] \<Rightarrow> [[x]]
            | p # ps \<Rightarrow> (x # p) # ps))"

definition to_pairs :: "'a list \<Rightarrow> ('a \<times> 'a) list" where
  "to_pairs array = (let half = length array div 2 in zip (take half array) (drop half array))"

definition inc_id :: "str \<Rightarrow> error + str" where
  "inc_id ident =
     (case split_on (CHR ''-'') ident of
        [ts, seq] \<Rightarrow>
          (case py_int seq of
             Inl e \<Rightarrow> Inl e
           | Inr n \<Rightarrow> Inr (ts @ ''-'' @ show_int (n + 1)))
      | _ \<Rightarrow> Inl ValueError)"

section \<open>resp.py: the encoders\<close>

text \<open>
  Names are the source's, prefixed by the module or class they belong to
  (\<open>resp.integer\<close> is \<open>resp_integer\<close>, \<open>Stream.add\<close> is \<open>Stream_add\<close>); a leading
  underscore of a private name is dropped.
\<close>

definition resp_integer :: "int \<Rightarrow> bytes" where
  "resp_integer n = '':'' @ show_int n @ crlf"

definition resp_simple_string :: "str \<Rightarrow> bytes" where
  "resp_simple_string string = ''+'' @ string @ crlf"

definition resp_simple_error :: "str \<Rightarrow> bytes" where
  "resp_simple_error string = ''-ERR '' @ string @ crlf"

definition resp_bulk_string :: "scalar \<Rightarrow> bytes" where
  "resp_bulk_string string =
     (case string of
        PNone \<Rightarrow> ''$-1'' @ crlf
      | PInt n \<Rightarrow> ''$'' @ show_nat (py_len (show_int n)) @ crlf @ show_int n @ crlf
      | PStr s \<Rightarrow> ''$'' @ show_nat (py_len s) @ crlf @ s @ crlf)"

fun resp_array_item :: "item \<Rightarrow> bytes" where
  "resp_array_item (Leaf x) = resp_bulk_string x"
| "resp_array_item (Nested xs) =
     ''*'' @ show_nat (length xs) @ crlf @ concat (map resp_array_item xs)"

definition resp_array :: "item list \<Rightarrow> bytes" where
  "resp_array items = resp_array_item (Nested items)"

definition strs :: "str list \<Rightarrow> item list" where
  \<comment> \<open>a list of \<open>str\<close> as a list of items\<close>
  "strs xs = map (\<lambda>s. Leaf (PStr s)) xs"

definition join_space :: "str list \<Rightarrow> str" where
  \<comment> \<open>\<open>' '.join(array)\<close>\<close>
  "join_space xs = (case xs of [] \<Rightarrow> [] | x # r \<Rightarrow> x @ concat (map (\<lambda>y. '' '' @ y) r))"

definition resp_error_unknown_command :: "str list \<Rightarrow> bytes" where
  "resp_error_unknown_command array = resp_simple_error (''Unknown command '' @ join_space array)"

section \<open>stream.py\<close>

type_synonym entry = "str \<times> str list"
type_synonym stream_store = "str \<rightharpoonup> entry list"

record trigger =
  event :: bool

record stream_trigger = trigger +
  conditions :: "(str \<times> str) list"

definition StreamTrigger :: "str list \<Rightarrow> stream_trigger" where
  "StreamTrigger array = \<lparr>event = False, conditions = to_pairs array\<rparr>"

definition match_here :: "str \<Rightarrow> str option" where
  \<comment> \<open>\<open>(\d*)-\*\<close> matched at the start of the string: group 1\<close>
  "match_here s =
     (if take 2 (dropWhile is_digit s) = ''-*'' then Some (takeWhile is_digit s) else None)"

fun re_search :: "str \<Rightarrow> str option" where
  \<comment> \<open>\<open>re.search(r'(\d*)-\*', s)\<close>: the leftmost match, group 1\<close>
  "re_search [] = None"
| "re_search (c # cs) =
     (case match_here (c # cs) of
        Some ts \<Rightarrow> Some ts
      | None \<Rightarrow> re_search cs)"

definition entry_item :: "entry \<Rightarrow> item" where
  "entry_item e = Nested [Leaf (PStr (fst e)), Nested (strs (snd e))]"

definition Stream_add :: "real \<Rightarrow> stream_store \<Rightarrow> str \<Rightarrow> entry \<Rightarrow> (error + bytes) \<times> stream_store" where
  "Stream_add now store key entry =
     (let ident = fst entry;
          entries = (case store key of None \<Rightarrow> [] | Some es \<Rightarrow> es);
          store1 = store(key \<mapsto> entries);
          append = (\<lambda>new_id. (Inr (resp_bulk_string (PStr new_id)),
                              store1(key \<mapsto> entries @ [(new_id, snd entry)])))
      in if ident = ''0-0'' then
           (Inr (resp_simple_error ''The ID specified in XADD must be greater than 0-0''), store1)
         else
           let last_entry_id = (if entries \<noteq> [] then Some (fst (last entries)) else None) in
           (case (case last_entry_id of
                    None \<Rightarrow> Inr None
                  | Some l \<Rightarrow>
                      if l = [] then Inr None
                      else (case split_on (CHR ''-'') l of
                              [last_ts, last_seq] \<Rightarrow> Inr (Some (l, last_ts, last_seq))
                            | _ \<Rightarrow> Inl ValueError)) of
              Inl e \<Rightarrow> (Inl e, store1)
            | Inr lst \<Rightarrow>
                (case re_search ident of
                   Some ts \<Rightarrow>
                     (case lst of
                        None \<Rightarrow> append (ts @ ''-'' @ (if ts = ''0'' then ''1'' else ''0''))
                      | Some (l, last_ts, last_seq) \<Rightarrow>
                          if ts > last_ts then append (ts @ ''-'' @ show_int 0)
                          else (case py_int last_seq of
                                  Inl e \<Rightarrow> (Inl e, store1)
                                | Inr n \<Rightarrow> append (ts @ ''-'' @ show_int (n + 1))))
                 | None \<Rightarrow>
                     if ident = ''*'' then
                       (case lst of
                          None \<Rightarrow> append (show_int (py_trunc now) @ ''-0'')
                        | Some (l, last_ts, last_seq) \<Rightarrow>
                            (case py_int last_seq of
                               Inl e \<Rightarrow> (Inl e, store1)
                             | Inr n \<Rightarrow> append (last_ts @ ''-'' @ show_int (n + 1))))
                     else
                       (case lst of
                          None \<Rightarrow> append ident
                        | Some (l, last_ts, last_seq) \<Rightarrow>
                            if ident \<le> l then
                              (Inr (resp_simple_error
                                 ''The ID specified in XADD is equal or smaller than the target stream top item''),
                               store1)
                            else append ident))))"

definition Stream_read :: "stream_store \<Rightarrow> str \<Rightarrow> entry list option" where
  "Stream_read store key = store key"

definition Stream_range :: "stream_store \<Rightarrow> str \<Rightarrow> str \<Rightarrow> str \<Rightarrow> error + entry list" where
  "Stream_range store key start end =
     (let test = (\<lambda>entry. (start = ''-'' \<or> start \<le> fst entry) \<and> (end = ''+'' \<or> fst entry \<le> end))
      in case store key of
           None \<Rightarrow> Inl TypeError
         | Some entries \<Rightarrow> Inr (filter test entries))"


section \<open>models.py and database.py\<close>

datatype role = master | slave

record ReplicaConnection =
  port :: nat
  replication_offset :: int
  writer :: bytes

record wait_trigger = trigger +
  num_replicas :: int
  master_offset :: int

definition WaitTrigger :: "int \<Rightarrow> int \<Rightarrow> wait_trigger" where
  "WaitTrigger n off = \<lparr>event = False, num_replicas = n, master_offset = off\<rparr>"

text \<open>
  One record holds the fields of \<open>Database\<close> and of its two subclasses; \<open>role\<close> tells
  which subclass the object is, and a method of \<open>DatabaseMaster\<close> called on a replica
  is the \<open>AttributeError\<close> Python raises. \<open>writer\<close> of a connection is the bytes written
  to it so far.
\<close>

record database =
  role :: role
  store :: "scalar \<rightharpoonup> scalar \<times> real option"
  stream :: stream_store
  replicas :: "ReplicaConnection list"
  master_repl_offset :: int
  wait_triggers :: "wait_trigger list"
  stream_triggers :: "stream_trigger list"
  slave_repl_offset :: int

definition Database_set :: "database \<Rightarrow> scalar \<Rightarrow> scalar \<Rightarrow> real option \<Rightarrow> database" where
  "Database_set db key val expiry = db\<lparr>store := (store db)(key \<mapsto> (val, expiry))\<rparr>"

definition Database_get :: "real \<Rightarrow> database \<Rightarrow> scalar \<Rightarrow> scalar \<times> database" where
  \<comment> \<open>\<open>now\<close> is \<open>time.time() * 1000\<close>; an expiry of \<open>None\<close> or 0 is falsy\<close>
  "Database_get now db key =
     (case store db key of
        None \<Rightarrow> (PNone, db)
      | Some (val, expiry) \<Rightarrow>
          (case expiry of
             None \<Rightarrow> (val, db)
           | Some e \<Rightarrow>
               if e \<noteq> 0 \<and> now \<ge> e then (PNone, db\<lparr>store := (store db)(key := None)\<rparr>)
               else (val, db)))"

definition replication_count_acks_by_offset :: "database \<Rightarrow> int \<Rightarrow> int" where
  "replication_count_acks_by_offset db off =
     int (length (filter (\<lambda>r. replication_offset r \<ge> off) (replicas db)))"

definition update_replica_offset :: "database \<Rightarrow> nat \<Rightarrow> int \<Rightarrow> database" where
  "update_replica_offset db connection_port off =
     (let pending = filter (\<lambda>t. \<not> event t) (wait_triggers db);
          db1 = db\<lparr>wait_triggers := pending,
                   replicas := map (\<lambda>r. if connection_port = port r
                                         then r\<lparr>replication_offset := off\<rparr> else r) (replicas db)\<rparr>
      in db1\<lparr>wait_triggers :=
               map (\<lambda>t. if replication_count_acks_by_offset db1 (master_offset t) \<ge> num_replicas t
                         then t\<lparr>event := True\<rparr> else t) pending\<rparr>)"

definition propagate_command :: "database \<Rightarrow> bytes \<Rightarrow> database" where
  "propagate_command db command =
     db\<lparr>master_repl_offset := master_repl_offset db + int (length command),
        replicas := map (\<lambda>r. r\<lparr>writer := writer r @ command\<rparr>) (replicas db)\<rparr>"

definition check_stream_triggers :: "database \<Rightarrow> str \<Rightarrow> str \<Rightarrow> database" where
  "check_stream_triggers db key ident =
     db\<lparr>stream_triggers :=
          map (\<lambda>t. if list_ex (\<lambda>condition. key = fst condition \<and> ident > snd condition)
                                (conditions t)
                    then t\<lparr>event := True\<rparr> else t)
              (filter (\<lambda>t. \<not> event t) (stream_triggers db))\<rparr>"

definition inc_offset :: "database \<Rightarrow> int \<Rightarrow> database" where
  "inc_offset db n = db\<lparr>slave_repl_offset := slave_repl_offset db + n\<rparr>"

section \<open>command.py\<close>

text \<open>
  A \<open>_respond\<close> returns the reply (\<open>None\<close> when there is none) or the exception it
  raises, with the database as it leaves it. The clock is the argument \<open>now\<close>.
\<close>

type_synonym response = "(error + bytes option) \<times> database"

definition pack :: "str list \<Rightarrow> bytes" where
  "pack array = resp_array (strs array)"

definition Command_execute ::
  "(database \<Rightarrow> response) \<Rightarrow> str list \<Rightarrow> ReplicaConnection \<Rightarrow> database
     \<Rightarrow> error option \<times> ReplicaConnection \<times> database" where
  \<comment> \<open>\<open>respond\<close> is the \<open>_respond\<close> of the command's class, \<open>array\<close> is \<open>self.array\<close>\<close>
  "Command_execute respond array connection db =
     (case respond db of
        (Inl e, db1) \<Rightarrow> (Some e, connection, db1)
      | (Inr response, db1) \<Rightarrow>
          let db2 = (if role db1 = slave then inc_offset db1 (int (length (pack array))) else db1)
          in (case response of
                None \<Rightarrow> (None, connection, db2)
              | Some r \<Rightarrow>
                  if r = [] then (None, connection, db2)
                  else (None, connection\<lparr>writer := writer connection @ r\<rparr>, db2)))"

definition CommandPing_respond :: "database \<Rightarrow> response" where
  "CommandPing_respond db =
     (if role db = master then (Inr (Some (resp_simple_string ''PONG'')), db) else (Inr None, db))"

definition CommandSet_respond :: "real \<Rightarrow> str list \<Rightarrow> database \<Rightarrow> response" where
  \<comment> \<open>the propagation task the master spawns is run at once\<close>
  "CommandSet_respond now array db =
     (case take 2 (drop 1 array) of
        [key, val] \<Rightarrow>
          (case (if length array = 5 \<and> upper (array ! 3) = ''PX''
                 then (case py_int (array ! 4) of Inl e \<Rightarrow> Inl e | Inr n \<Rightarrow> Inr (Some n))
                 else Inr None) of
             Inl e \<Rightarrow> (Inl e, db)
           | Inr px \<Rightarrow>
               let expiry = (case px of
                               None \<Rightarrow> None
                             | Some n \<Rightarrow> if n = 0 then Some 0 else Some (now + of_int n));
                   db1 = Database_set db (PStr key) (PStr val) expiry
               in if role db1 = master
                  then (Inr (Some (resp_simple_string ''OK'')), propagate_command db1 (pack array))
                  else (Inr None, db1))
      | _ \<Rightarrow> (Inl ValueError, db))"

definition CommandGet_respond :: "real \<Rightarrow> str list \<Rightarrow> database \<Rightarrow> response" where
  "CommandGet_respond now array db =
     (if length array < 2 then (Inl IndexError, db)
      else let (val, db1) = Database_get now db (PStr (array ! 1))
           in (Inr (Some (resp_bulk_string val)), db1))"

definition CommandType_respond :: "real \<Rightarrow> str list \<Rightarrow> database \<Rightarrow> response" where
  "CommandType_respond now array db =
     (if length array < 2 then (Inl IndexError, db)
      else let key = array ! 1;
               (val, db1) = Database_get now db (PStr key)
           in if val \<noteq> PNone then (Inr (Some (resp_simple_string ''string'')), db1)
              else if Stream_read (stream db1) key \<noteq> None
                   then (Inr (Some (resp_simple_string ''stream'')), db1)
              else (Inr (Some (resp_simple_string ''none'')), db1))"

definition CommandXAdd_respond :: "real \<Rightarrow> str list \<Rightarrow> database \<Rightarrow> response" where
  "CommandXAdd_respond now array db =
     (case take 2 (drop 1 array) of
        [key, ident] \<Rightarrow>
          if role db = slave then (Inl AttributeError, db)
          else
            let db1 = check_stream_triggers db key ident;
                (r, st) = Stream_add now (stream db1) key (ident, drop 3 array)
            in (case r of
                  Inl e \<Rightarrow> (Inl e, db1\<lparr>stream := st\<rparr>)
                | Inr reply \<Rightarrow> (Inr (Some reply), db1\<lparr>stream := st\<rparr>))
      | _ \<Rightarrow> (Inl ValueError, db))"

definition CommandXRange_respond :: "str list \<Rightarrow> database \<Rightarrow> response" where
  "CommandXRange_respond array db =
     (case drop 1 array of
        [key, start, end] \<Rightarrow>
          (case Stream_range (stream db) key start end of
             Inl e \<Rightarrow> (Inl e, db)
           | Inr entries \<Rightarrow> (Inr (Some (resp_array (map entry_item entries))), db))
      | _ \<Rightarrow> (Inl ValueError, db))"


definition CommandReplConf_respond :: "str list \<Rightarrow> ReplicaConnection \<Rightarrow> database \<Rightarrow> response" where
  "CommandReplConf_respond array connection db =
     (if length array < 2 then (Inl IndexError, db)
      else let subcommand = upper (array ! 1) in
        if subcommand = ''LISTENING-PORT'' then (Inr (Some (resp_simple_string ''OK'')), db)
        else if subcommand = ''CAPA'' then (Inr (Some (resp_simple_string ''OK'')), db)
        else if subcommand = ''GETACK'' then
          (if role db = slave
           then (Inr (Some (resp_array [Leaf (PStr ''REPLCONF''), Leaf (PStr ''ACK''),
                                        Leaf (PInt (slave_repl_offset db))])), db)
           else (Inr None, db))
        else if subcommand = ''ACK'' then
          (if role db = master then
             (if length array < 3 then (Inl IndexError, db)
              else (case py_int (array ! 2) of
                      Inl e \<Rightarrow> (Inl e, db)
                    | Inr off \<Rightarrow> (Inr None, update_replica_offset db (port connection) off)))
           else (Inr None, db))
        else (Inr (Some (resp_error_unknown_command array)), db))"

text \<open>
  \<open>CommandWait._respond\<close> suspends on the trigger's event. \<open>CommandWait_begin\<close> is the part
  before the suspension, \<open>CommandWait_end\<close> the part after it.
\<close>

datatype wait_step =
    Replied "bytes option"
  | Awaiting wait_trigger real
  | NotAwaiting wait_trigger

definition CommandWait_begin :: "str list \<Rightarrow> database \<Rightarrow> (error + wait_step) \<times> database" where
  "CommandWait_begin array db =
     (if role db = master then
        (case drop 1 array of
           [a, b] \<Rightarrow>
             (case py_int a of
                Inl e \<Rightarrow> (Inl e, db)
              | Inr n \<Rightarrow>
                  (case py_int b of
                     Inl e \<Rightarrow> (Inl e, db)
                   | Inr timeout \<Rightarrow>
                       let offs = master_repl_offset db;
                           ack_replicas = replication_count_acks_by_offset db offs
                       in if ack_replicas \<ge> n then
                            (Inr (Replied (Some (resp_integer ack_replicas))), db)
                          else
                            let trigger = WaitTrigger n offs;
                                db1 = db\<lparr>wait_triggers := wait_triggers db @ [trigger]\<rparr>;
                                get_ack = resp_array (strs (split_on (CHR '' '') ''REPLCONF GETACK *''))
                            in if offs > 0
                               then (Inr (Awaiting trigger (real_of_int timeout / 1000)),
                                     propagate_command db1 get_ack)
                               else (Inr (NotAwaiting trigger), db1)))
         | _ \<Rightarrow> (Inl ValueError, db))
      else (Inr (Replied None), db))"

definition CommandWait_end :: "wait_trigger \<Rightarrow> database \<Rightarrow> response" where
  "CommandWait_end trigger db =
     (Inr (Some (resp_integer (replication_count_acks_by_offset db (master_offset trigger)))), db)"

fun replace_dollars :: "stream_store \<Rightarrow> nat \<Rightarrow> (str \<times> str) list \<Rightarrow> str list \<Rightarrow> error + str list" where
  \<comment> \<open>the loop of \<open>CommandXRread._replace_dollars\<close> from index \<open>i\<close> on\<close>
  "replace_dollars st i [] array = Inr array"
| "replace_dollars st i ((key, ident) # ps) array =
     (if ident = ''$'' then
        (case Stream_read st key of
           None \<Rightarrow> Inl TypeError
         | Some entries \<Rightarrow>
             if 4 + 2 * i + 1 < length array
             then replace_dollars st (i + 1) ps
                    (array[4 + 2 * i + 1 := (if entries = [] then ''0-0'' else fst (last entries))])
             else Inl IndexError)
      else replace_dollars st (i + 1) ps array)"

fun read_streams :: "stream_store \<Rightarrow> (str \<times> str) list \<Rightarrow> error + (str \<times> entry list) list" where
  "read_streams st [] = Inr []"
| "read_streams st ((key, start) # ps) =
     (case inc_id start of
        Inl e \<Rightarrow> Inl e
      | Inr start1 \<Rightarrow>
          (case Stream_range st key start1 ''+'' of
             Inl e \<Rightarrow> Inl e
           | Inr entries \<Rightarrow>
               (case read_streams st ps of
                  Inl e \<Rightarrow> Inl e
                | Inr r \<Rightarrow> Inr ((key, entries) # r))))"

definition CommandXRread_read :: "str list \<Rightarrow> database \<Rightarrow> response" where
  "CommandXRread_read request db =
     (case read_streams (stream db) (to_pairs request) of
        Inl e \<Rightarrow> (Inl e, db)
      | Inr result \<Rightarrow>
          if list_all (\<lambda>s. snd s = []) result then (Inr (Some (resp_bulk_string PNone)), db)
          else (Inr (Some (resp_array
                  (map (\<lambda>s. Nested [Leaf (PStr (fst s)), Nested (map entry_item (snd s))]) result))),
                db))"

definition CommandXRread_block_begin :: "str list \<Rightarrow> database \<Rightarrow> (error + str list) \<times> database" where
  \<comment> \<open>the \<open>BLOCK\<close> case up to the suspension: the rewritten \<open>self.array\<close>, the trigger registered\<close>
  "CommandXRread_block_begin array db =
     (case replace_dollars (stream db) 0 (to_pairs (drop 4 array)) array of
        Inl e \<Rightarrow> (Inl e, db)
      | Inr array1 \<Rightarrow>
          if role db = slave then (Inl AttributeError, db)
          else
            let db1 = db\<lparr>stream_triggers := stream_triggers db @ [StreamTrigger (drop 4 array1)]\<rparr>
            in if length array1 < 3 then (Inl IndexError, db1)
               else (case py_int (array1 ! 2) of
                       Inl e \<Rightarrow> (Inl e, db1)
                     | Inr ms \<Rightarrow> (Inr array1, db1)))"

section \<open>resp.py: the decoder\<close>

fun index_crlf :: "bytes \<Rightarrow> nat option" where
  \<comment> \<open>\<open>buffer.index(b'\r\n')\<close>, \<open>None\<close> where Python raises\<close>
  "index_crlf (a # b # r) =
     (if a = CHR 0x0D \<and> b = CHR 0x0A then Some 0
      else (case index_crlf (b # r) of None \<Rightarrow> None | Some i \<Rightarrow> Some (Suc i)))"
| "index_crlf _ = None"

definition resp_read_token :: "bytes \<Rightarrow> error + bytes \<times> bytes" where
  "resp_read_token buffer =
     (case index_crlf buffer of
        None \<Rightarrow> Inl ValueError
      | Some sep \<Rightarrow> Inr (take sep buffer, drop (sep + 2) buffer))"

definition resp_read_bulk_string :: "bytes \<Rightarrow> error + str \<times> bytes" where
  "resp_read_bulk_string buffer0 =
     (case resp_read_token buffer0 of
        Inl e \<Rightarrow> Inl e
      | Inr (raw_length, buffer) \<Rightarrow>
          if take 1 raw_length \<noteq> ''$'' then Inl AssertionError
          else (case decode (drop 1 raw_length) of
                  Inl e \<Rightarrow> Inl e
                | Inr digits \<Rightarrow>
                    (case py_int digits of
                       Inl e \<Rightarrow> Inl e
                     | Inr len \<Rightarrow>
                         (case decode (slice_to buffer len) of
                            Inl e \<Rightarrow> Inl e
                          | Inr string \<Rightarrow> Inr (string, slice_from buffer (len + 2))))))"

fun read_bulk_strings :: "nat \<Rightarrow> bytes \<Rightarrow> error + str list \<times> bytes" where
  \<comment> \<open>the \<open>for\<close> loop of \<open>_read_array\<close>\<close>
  "read_bulk_strings 0 buffer = Inr ([], buffer)"
| "read_bulk_strings (Suc n) buffer =
     (case resp_read_bulk_string buffer of
        Inl e \<Rightarrow> Inl e
      | Inr (string, buffer1) \<Rightarrow>
          (case read_bulk_strings n buffer1 of
             Inl e \<Rightarrow> Inl e
           | Inr (array, buffer2) \<Rightarrow> Inr (string # array, buffer2)))"

definition resp_read_array :: "bytes \<Rightarrow> error + str list \<times> bytes" where
  "resp_read_array buffer0 =
     (case resp_read_token (drop 1 buffer0) of
        Inl e \<Rightarrow> Inl e
      | Inr (raw_length, buffer) \<Rightarrow>
          (case decode raw_length of
             Inl e \<Rightarrow> Inl e
           | Inr digits \<Rightarrow>
               (case py_int digits of
                  Inl e \<Rightarrow> Inl e
                | Inr len \<Rightarrow> read_bulk_strings (nat len) buffer)))"

definition resp_read_rdb :: "bytes \<Rightarrow> error + bytes \<times> bytes" where
  "resp_read_rdb buffer0 =
     (case resp_read_token buffer0 of
        Inl e \<Rightarrow> Inl e
      | Inr (raw_length, buffer) \<Rightarrow>
          if take 1 raw_length \<noteq> ''$'' then Inl AssertionError
          else (case decode (drop 1 raw_length) of
                  Inl e \<Rightarrow> Inl e
                | Inr digits \<Rightarrow>
                    (case py_int digits of
                       Inl e \<Rightarrow> Inl e
                     | Inr len \<Rightarrow> Inr (slice_to buffer len, slice_from buffer len))))"

fun contains :: "bytes \<Rightarrow> bytes \<Rightarrow> bool" where
  \<comment> \<open>\<open>sub in buffer\<close>\<close>
  "contains sub [] = (sub = [])"
| "contains sub (x # xs) = (take (length sub) (x # xs) = sub \<or> contains sub xs)"

datatype command_class =
    CommandPing | CommandEcho | CommandSet | CommandGet | CommandConfig | CommandKeys
  | CommandInfo | CommandReplConf | CommandPSync | CommandWait | CommandType | CommandXAdd
  | CommandXRange | CommandXRread | CommandUnknown

definition Command_parse :: "str list \<Rightarrow> error + command_class \<times> str list" where
  "Command_parse array =
     (case array of
        [] \<Rightarrow> Inl IndexError
      | first # _ \<Rightarrow>
          Inr (case map_of
                 [(''PING'', CommandPing), (''ECHO'', CommandEcho), (''SET'', CommandSet),
                  (''GET'', CommandGet), (''CONFIG'', CommandConfig), (''KEYS'', CommandKeys),
                  (''INFO'', CommandInfo), (''REPLCONF'', CommandReplConf),
                  (''PSYNC'', CommandPSync), (''WAIT'', CommandWait), (''TYPE'', CommandType),
                  (''XADD'', CommandXAdd), (''XRANGE'', CommandXRange), (''XREAD'', CommandXRread)]
                 (upper first) of
                 None \<Rightarrow> CommandUnknown
               | Some c \<Rightarrow> c, array))"

text \<open>
  \<open>resp.parse\<close> is a generator: the result is the commands it yields, then the exception
  that ends it if one does. Its \<open>while\<close> loop does not change the buffer when no branch
  applies, so it need not return: not returning is \<open>None\<close>.
\<close>

partial_function (option) resp_parse ::
  "bytes \<Rightarrow> ((command_class \<times> str list) list \<times> error option) option" where
  "resp_parse buffer =
     (if buffer = [] then Some ([], None)
      else if take 1 buffer = ''*'' then
        (case resp_read_array buffer of
           Inl e \<Rightarrow> Some ([], Some e)
         | Inr (array, buffer1) \<Rightarrow>
             (case Command_parse array of
                Inl e \<Rightarrow> Some ([], Some e)
              | Inr command \<Rightarrow>
                  Option.bind (resp_parse buffer1) (\<lambda>r. Some (command # fst r, snd r))))
      else if take 1 buffer = ''+'' then
        (case resp_read_token buffer of
           Inl e \<Rightarrow> Some ([], Some e)
         | Inr (line, buffer1) \<Rightarrow> resp_parse buffer1)
      else if contains ''REDIS'' buffer then
        (case resp_read_rdb buffer of
           Inl e \<Rightarrow> Some ([], Some e)
         | Inr (rdb, buffer1) \<Rightarrow> resp_parse buffer1)
      else resp_parse buffer)"


section \<open>persistence.py\<close>

text \<open>
  \<open>rdb_file\<close> (the source's \<open>file\<close>) is what is left to read of the RDB file;
  \<open>file.read(n)\<close> takes up to \<open>n\<close> bytes off its front. An exception ends the
  constructor, so it carries no state.
\<close>

datatype length_value = LInt nat | L8bit | LNone

record Persistence =
  rdb_file :: bytes
  db :: database
  aux :: "scalar \<rightharpoonup> scalar"
  checksum :: "bytes option"
  db_size :: "length_value option"
  expiry_size :: "length_value option"
  db_number :: "length_value option"
  version :: "int option"

definition file_read :: "nat \<Rightarrow> Persistence \<Rightarrow> bytes \<times> Persistence" where
  "file_read n p = (take n (rdb_file p), p\<lparr>rdb_file := drop n (rdb_file p)\<rparr>)"

definition unpack_Q :: "bytes \<Rightarrow> nat" where
  \<comment> \<open>\<open>struct.unpack('<Q', b)[0]\<close> of eight bytes: little-endian\<close>
  "unpack_Q bs = foldr (\<lambda>c n. of_char c + 256 * n) bs 0"

definition Persistence_read_length :: "Persistence \<Rightarrow> error + length_value \<times> Persistence" where
  "Persistence_read_length p =
     (case file_read 1 p of
        (byte, p1) \<Rightarrow>
          (case byte of
             [b] \<Rightarrow>
               let len = (of_char b :: nat); crumb = drop_bit 6 len
               in if crumb = 0 then Inr (LInt len, p1)
                  else if crumb = 3 then Inr (L8bit, p1)
                  else Inr (LNone, p1)
           | _ \<Rightarrow> Inl StructError))"

definition Persistence_read_string :: "Persistence \<Rightarrow> error + scalar \<times> Persistence" where
  "Persistence_read_string p =
     (case Persistence_read_length p of
        Inl e \<Rightarrow> Inl e
      | Inr (len, p1) \<Rightarrow>
          (case len of
             LInt n \<Rightarrow>
               (case file_read n p1 of
                  (bs, p2) \<Rightarrow>
                    (case decode bs of
                       Inl e \<Rightarrow> Inl e
                     | Inr s \<Rightarrow> Inr (PStr s, p2)))
           | L8bit \<Rightarrow>
               (case file_read 1 p1 of
                  (byte, p2) \<Rightarrow>
                    (case byte of
                       [b] \<Rightarrow> Inr (PInt (of_char b), p2)
                     | _ \<Rightarrow> Inl StructError))
           | LNone \<Rightarrow> Inr (PNone, p1)))"

definition Persistence_set_aux :: "Persistence \<Rightarrow> error + Persistence" where
  "Persistence_set_aux p =
     (case Persistence_read_string p of
        Inl e \<Rightarrow> Inl e
      | Inr (key, p1) \<Rightarrow>
          (case Persistence_read_string p1 of
             Inl e \<Rightarrow> Inl e
           | Inr (val, p2) \<Rightarrow> Inr (p2\<lparr>aux := (aux p2)(key \<mapsto> val)\<rparr>)))"

definition Persistence_set_resizedb :: "Persistence \<Rightarrow> error + Persistence" where
  "Persistence_set_resizedb p =
     (case Persistence_read_length p of
        Inl e \<Rightarrow> Inl e
      | Inr (n, p1) \<Rightarrow>
          (case Persistence_read_length (p1\<lparr>db_size := Some n\<rparr>) of
             Inl e \<Rightarrow> Inl e
           | Inr (m, p2) \<Rightarrow> Inr (p2\<lparr>expiry_size := Some m\<rparr>)))"

definition Persistence_set_selectdb :: "Persistence \<Rightarrow> error + Persistence" where
  "Persistence_set_selectdb p =
     (case Persistence_read_length p of
        Inl e \<Rightarrow> Inl e
      | Inr (n, p1) \<Rightarrow> Inr (p1\<lparr>db_number := Some n\<rparr>))"

definition Persistence_set_kv_pair :: "real option \<Rightarrow> Persistence \<Rightarrow> error + Persistence" where
  "Persistence_set_kv_pair px p =
     (case Persistence_read_string p of
        Inl e \<Rightarrow> Inl e
      | Inr (key, p1) \<Rightarrow>
          (case Persistence_read_string p1 of
             Inl e \<Rightarrow> Inl e
           | Inr (val, p2) \<Rightarrow> Inr (p2\<lparr>db := Database_set (db p2) key val px\<rparr>)))"

definition Persistence_set_kv_pair_px :: "Persistence \<Rightarrow> error + Persistence" where
  "Persistence_set_kv_pair_px p =
     (case file_read 8 p of
        (quadword, p1) \<Rightarrow>
          if length quadword \<noteq> 8 then Inl StructError
          else Persistence_set_kv_pair (Some (real (unpack_Q quadword))) (snd (file_read 1 p1)))"

definition Persistence_set_checksum :: "Persistence \<Rightarrow> Persistence" where
  "Persistence_set_checksum p = (case file_read 8 p of (bs, p1) \<Rightarrow> p1\<lparr>checksum := Some bs\<rparr>)"

definition Persistence_parse_next :: "Persistence \<Rightarrow> error + bool \<times> Persistence" where
  \<comment> \<open>the flag is \<open>True\<close> when \<open>StopIteration\<close> is raised\<close>
  "Persistence_parse_next p =
     (case file_read 1 p of
        (opcode, p1) \<Rightarrow>
          let continue = (\<lambda>r. case r of Inl e \<Rightarrow> Inl e | Inr p2 \<Rightarrow> Inr (False, p2))
          in if opcode = [CHR 0xFA] then continue (Persistence_set_aux p1)
             else if opcode = [CHR 0xFB] then continue (Persistence_set_resizedb p1)
             else if opcode = [CHR 0xFC] then continue (Persistence_set_kv_pair_px p1)
             else if opcode = [CHR 0xFE] then continue (Persistence_set_selectdb p1)
             else if opcode = [CHR 0xFF] then Inr (True, Persistence_set_checksum p1)
             else if opcode = [CHR 0x00] then continue (Persistence_set_kv_pair None p1)
             else Inr (False, p1))"

partial_function (option) Persistence_parse_all :: "Persistence \<Rightarrow> (error + Persistence) option" where
  \<comment> \<open>the \<open>while True\<close> loop of the constructor; \<open>None\<close> when it does not end\<close>
  "Persistence_parse_all p =
     (case Persistence_parse_next p of
        Inl e \<Rightarrow> Some (Inl e)
      | Inr (stop, p1) \<Rightarrow> if stop then Some (Inr p1) else Persistence_parse_all p1)"

definition Persistence_init :: "database \<Rightarrow> bytes \<Rightarrow> (error + Persistence) option" where
  \<comment> \<open>\<open>Persistence(db)\<close> on the content of the file at \<open>db.rdb_path\<close>\<close>
  "Persistence_init d content =
     (let p0 = \<lparr>rdb_file = content, db = d, aux = Map.empty, checksum = None, db_size = None,
                expiry_size = None, db_number = None, version = None\<rparr>;
          (magic, p1) = file_read 5 p0
      in if magic \<noteq> ''REDIS'' then Some (Inl AssertionError)
         else
           let (v, p2) = file_read 4 p1
           in (case decode v of
                 Inl e \<Rightarrow> Some (Inl e)
               | Inr digits \<Rightarrow>
                   (case py_int digits of
                      Inl e \<Rightarrow> Some (Inl e)
                    | Inr n \<Rightarrow> Persistence_parse_all (p2\<lparr>version := Some n\<rparr>))))"

definition DatabaseMaster_init :: "bytes option \<Rightarrow> (error + database) option" where
  \<comment> \<open>\<open>DatabaseMaster(args)\<close>, which runs \<open>Database.__init__\<close> first; the argument is the
      content of the file at \<open>rdb_path\<close>, \<open>None\<close> when no file is there. \<open>None\<close> as the
      result: the loader does not return\<close>
  "DatabaseMaster_init rdb =
     (let d = \<lparr>role = master, store = Map.empty, stream = Map.empty, replicas = [],
               master_repl_offset = 0, wait_triggers = [], stream_triggers = [],
               slave_repl_offset = 0\<rparr>
      in case rdb of
           None \<Rightarrow> Some (Inr d)
         | Some content \<Rightarrow>
             (case Persistence_init d content of
                None \<Rightarrow> None
              | Some (Inl e) \<Rightarrow> Some (Inl e)
              | Some (Inr p) \<Rightarrow> Some (Inr (db p))))"

section \<open>Sample states\<close>

definition new_master :: database where
  \<comment> \<open>a master started without an RDB file\<close>
  "new_master = \<lparr>role = master, store = Map.empty, stream = Map.empty, replicas = [],
                  master_repl_offset = 0, wait_triggers = [], stream_triggers = [],
                  slave_repl_offset = 0\<rparr>"

definition new_replica :: database where
  \<comment> \<open>a replica before it has executed anything\<close>
  "new_replica = new_master\<lparr>role := slave\<rparr>"

definition client :: ReplicaConnection where
  \<comment> \<open>an ordinary client's connection, from port 50000\<close>
  "client = \<lparr>port = 50000, replication_offset = 0, writer = []\<rparr>"


definition register_replica :: "database \<Rightarrow> ReplicaConnection \<Rightarrow> database" where
  "register_replica d replica = d\<lparr>replicas := replicas d @ [replica]\<rparr>"

definition replica_6380 :: ReplicaConnection where
  \<comment> \<open>the connection of a replica, from port 6380, that has acknowledged nothing yet\<close>
  "replica_6380 = \<lparr>port = 6380, replication_offset = 0, writer = []\<rparr>"

definition master_after_set :: database where
  \<comment> \<open>a master with one replica registered, after \<open>SET k v\<close>\<close>
  "master_after_set =
     snd (CommandSet_respond 1000 [''SET'', ''k'', ''v'']
            (register_replica new_master replica_6380))"

definition rdb_unsupported :: bytes where
  \<comment> \<open>an RDB file whose one key-value record has a key with the length byte \<open>0x40\<close>\<close>
  "rdb_unsupported = ''REDIS0011'' @ [CHR 0x00, CHR 0x40, CHR 0x01, CHR ''a'', CHR 0xFF]
                      @ ''12345678''"

definition ascii :: "str \<Rightarrow> bool" where
  \<comment> \<open>a \<open>str\<close> of ASCII characters: its length in characters is its length in bytes\<close>
  "ascii s = list_all (\<lambda>c. c < CHR 0x80) s"

section \<open>The numeric reading of an id\<close>

text \<open>
  What the specification means by the numeric \<open>(ms, seq)\<close> order: an id written as two
  runs of decimal digits joined by \<open>-\<close> is read as a pair of numbers, and pairs are
  compared component-wise, \<open>ms\<close> first. These two definitions follow the
  specification's words, not the source, which has no such reading.
\<close>

definition dec :: "str \<Rightarrow> nat" where
  "dec s = foldl (\<lambda>a c. 10 * a + digit_val c) 0 s"

definition id_number :: "str \<Rightarrow> (nat \<times> nat) option" where
  "id_number ident =
     (case split_on (CHR ''-'') ident of
        [ms, seq] \<Rightarrow>
          if ms \<noteq> [] \<and> seq \<noteq> [] \<and> list_all is_digit ms \<and> list_all is_digit seq
          then Some (dec ms, dec seq) else None
      | _ \<Rightarrow> None)"

definition id_le :: "nat \<times> nat \<Rightarrow> nat \<times> nat \<Rightarrow> bool" where
  "id_le x y = (fst x < fst y \<or> (fst x = fst y \<and> snd x \<le> snd y))"

section \<open>Replies\<close>

lemma bulk_string_not_error: "resp_bulk_string x \<noteq> resp_simple_error m"
  by (cases x) (simp_all add: resp_bulk_string_def resp_simple_error_def)

lemma simple_error_inj: "resp_simple_error m = resp_simple_error m' \<longleftrightarrow> m = m'"
  by (simp add: resp_simple_error_def)

lemma stream_check_stream_triggers: "stream (check_stream_triggers d key ident) = stream d"
  by (simp add: check_stream_triggers_def)

lemmas run_defs = CommandXAdd_respond_def check_stream_triggers_def Stream_add_def new_master_def
  resp_bulk_string_def py_len_def is_cont_def show_nat.simps digit_char_def match_here_def
  is_digit_def py_int_def strip_def is_space_def py_nat_def show_int_def digit_val_def
  py_trunc_def resp_simple_error_def crlf_def Let_def

section \<open>A rejected XADD still creates the stream\<close>

lemma Stream_add_absent:
  assumes "st key = None"
    and "Stream_add now st key (ident, fvs) = (Inr (resp_simple_error msg), st1)"
  shows "ident = ''0-0'' \<and> msg = ''The ID specified in XADD must be greater than 0-0''
         \<and> st1 = st(key \<mapsto> [])"
  using assms
  by (auto simp: Stream_add_def Let_def bulk_string_not_error simple_error_inj
      split: if_splits option.splits)

lemma Database_get_stream: "stream (snd (Database_get now d key)) = stream d"
  by (auto simp: Database_get_def split: option.splits)

text \<open>
  C10, as the code has it. On a master, for a key that the stream store does not hold,
  \<open>XADD key 0-0\<close> replies the error "The ID specified in XADD must be greater than 0-0"
  and leaves an empty entry list under the key in the stream store, the string store
  untouched; no other id is answered with an error there. TYPE on that key, which
  replied \<open>+none\<close> or \<open>+string\<close> before, then replies \<open>+stream\<close> when the key holds no live
  string value and \<open>+string\<close> when it does.
\<close>

theorem xadd_zero_creates_stream:
  assumes "role d = master" and "stream d key = None"
  shows "CommandXAdd_respond now (cmd # key # ''0-0'' # fvs) d
           = (Inr (Some (resp_simple_error ''The ID specified in XADD must be greater than 0-0'')),
              (check_stream_triggers d key ''0-0'')\<lparr>stream := (stream d)(key \<mapsto> [])\<rparr>)
       \<and> (let d1 = snd (CommandXAdd_respond now (cmd # key # ''0-0'' # fvs) d)
          in stream d1 key = Some []
           \<and> store d1 = store d
           \<and> fst (CommandType_respond now1 (t # key # args) d1)
               = Inr (Some (resp_simple_string
                   (if fst (Database_get now1 d1 (PStr key)) = PNone then ''stream''
                    else ''string''))))
       \<and> fst (CommandType_respond now1 (t # key # args) d)
           = Inr (Some (resp_simple_string
               (if fst (Database_get now1 d (PStr key)) = PNone then ''none'' else ''string'')))
       \<and> (fst (CommandXAdd_respond now (cmd # key # ident # fvs) d)
             = Inr (Some (resp_simple_error msg)) \<longrightarrow> ident = ''0-0'')"
proof -
  let ?d1 = "(check_stream_triggers d key ''0-0'')\<lparr>stream := (stream d)(key \<mapsto> [])\<rparr>"
  have add: "Stream_add now (stream d) key (''0-0'', fvs)
      = (Inr (resp_simple_error ''The ID specified in XADD must be greater than 0-0''),
         (stream d)(key \<mapsto> []))"
    using assms(2) by (simp add: Stream_add_def Let_def)
  have 1: "CommandXAdd_respond now (cmd # key # ''0-0'' # fvs) d
           = (Inr (Some (resp_simple_error ''The ID specified in XADD must be greater than 0-0'')),
              ?d1)"
    using assms(1) add by (simp add: CommandXAdd_respond_def stream_check_stream_triggers)
  have s1: "stream ?d1 key = Some []" and st: "store ?d1 = store d"
    by (simp_all add: check_stream_triggers_def)
  have ty: "fst (CommandType_respond now1 (t # key # args) e)
           = Inr (Some (resp_simple_string
               (if fst (Database_get now1 e (PStr key)) = PNone
                then (if stream e key = None then ''none'' else ''stream'') else ''string'')))" for e
  proof -
    obtain v e2 where g: "Database_get now1 e (PStr key) = (v, e2)"
      by (cases "Database_get now1 e (PStr key)")
    with Database_get_stream[of now1 e "PStr key"] have "stream e2 = stream e" by simp
    with g show ?thesis by (simp add: CommandType_respond_def Stream_read_def)
  qed
  have 2: "fst (CommandType_respond now1 (t # key # args) ?d1)
               = Inr (Some (resp_simple_string
                   (if fst (Database_get now1 ?d1 (PStr key)) = PNone then ''stream''
                    else ''string'')))"
    using ty[of ?d1] s1 by simp
  have 3: "fst (CommandType_respond now1 (t # key # args) d)
           = Inr (Some (resp_simple_string
               (if fst (Database_get now1 d (PStr key)) = PNone then ''none'' else ''string'')))"
    using ty[of d] assms(2) by simp
  have 4: "ident = ''0-0''"
    if h: "fst (CommandXAdd_respond now (cmd # key # ident # fvs) d)
             = Inr (Some (resp_simple_error msg))"
  proof -
    obtain r st1 where a: "Stream_add now (stream d) key (ident, fvs) = (r, st1)"
      by (cases "Stream_add now (stream d) key (ident, fvs)")
    with h assms(1) have "r = Inr (resp_simple_error msg)"
      by (auto simp: CommandXAdd_respond_def stream_check_stream_triggers Let_def
          split: sum.splits)
    with a Stream_add_absent[where st="stream d" and key=key, OF assms(2), of now ident fvs msg st1] show ?thesis by simp
  qed
  from 1 2 3 4 s1 st show ?thesis by (simp add: Let_def)
qed

text \<open>
  The claim that TYPE replies \<open>+stream\<close> after every rejected XADD on an absent key
  fails: after \<open>SET k v\<close>, \<open>XADD k 0-0\<close> is rejected and creates the empty list, and TYPE
  still replies \<open>+string\<close>, the string store being looked up first; on a replica
  \<open>XADD s 0-0\<close> raises \<open>AttributeError\<close> before \<open>Stream.add\<close> is reached, nothing is
  created and TYPE replies \<open>+none\<close>.
\<close>

theorem xadd_zero_type_counterexample:
  "(let d = snd (CommandSet_respond 1000 [''SET'', ''k'', ''v''] new_master);
        r = CommandXAdd_respond 1000 [''XADD'', ''k'', ''0-0'', ''f'', ''v''] d
    in stream d ''k'' = None
     \<and> fst r = Inr (Some (resp_simple_error ''The ID specified in XADD must be greater than 0-0''))
     \<and> stream (snd r) ''k'' = Some []
     \<and> fst (CommandType_respond 1000 [''TYPE'', ''k''] (snd r))
         = Inr (Some (resp_simple_string ''string'')))
   \<and> stream new_replica ''s'' = None
   \<and> CommandXAdd_respond 0 [''XADD'', ''s'', ''0-0'', ''f'', ''v''] new_replica
       = (Inl AttributeError, new_replica)
   \<and> fst (CommandType_respond 0 [''TYPE'', ''s''] new_replica)
       = Inr (Some (resp_simple_string ''none''))"
  by (simp add: run_defs CommandSet_respond_def Database_set_def propagate_command_def
      CommandType_respond_def Database_get_def Stream_read_def new_replica_def)

theorem xadd_zero_creates_stream_witness:
  "role new_master = master \<and> stream new_master ''s'' = None
   \<and> fst (CommandXAdd_respond 0 [''XADD'', ''s'', ''0-0'', ''f'', ''v''] new_master)
       = Inr (Some (resp_simple_error ''The ID specified in XADD must be greater than 0-0''))
   \<and> stream (snd (CommandXAdd_respond 0 [''XADD'', ''s'', ''0-0'', ''f'', ''v''] new_master)) ''s''
       = Some []
   \<and> fst (CommandType_respond 0 [''TYPE'', ''s'']
             (snd (CommandXAdd_respond 0 [''XADD'', ''s'', ''0-0'', ''f'', ''v''] new_master)))
       = Inr (Some (resp_simple_string ''stream''))
   \<and> fst (CommandType_respond 0 [''TYPE'', ''s''] new_master)
       = Inr (Some (resp_simple_string ''none''))"
proof -
  have a: "role new_master = master" and b: "stream new_master ''s'' = None"
    by (simp_all add: new_master_def)
  have c: "fst (Database_get 0 e (PStr ''s'')) = PNone" if "store e = store new_master" for e
    using that by (simp add: Database_get_def new_master_def)
  let ?r = "CommandXAdd_respond 0 [''XADD'', ''s'', ''0-0'', ''f'', ''v''] new_master"
  note t = xadd_zero_creates_stream[OF a b, of 0 "''XADD''" "[''f'', ''v'']" 0 "''TYPE''" "[]"
      "''0-0''" "''The ID specified in XADD must be greater than 0-0''", unfolded Let_def]
  from t have x: "?r = (Inr (Some (resp_simple_error
        ''The ID specified in XADD must be greater than 0-0'')),
      (check_stream_triggers new_master ''s'' ''0-0'')\<lparr>stream := (stream new_master)(''s'' \<mapsto> [])\<rparr>)"
    by blast
  from t have s: "store (snd ?r) = store new_master" by blast
  from t have l: "stream (snd ?r) ''s'' = Some []" by blast
  from t have ty: "fst (CommandType_respond 0 [''TYPE'', ''s''] (snd ?r))
       = Inr (Some (resp_simple_string
           (if fst (Database_get 0 (snd ?r) (PStr ''s'')) = PNone then ''stream'' else ''string'')))"
    by blast
  from t have tn: "fst (CommandType_respond 0 [''TYPE'', ''s''] new_master)
       = Inr (Some (resp_simple_string
           (if fst (Database_get 0 new_master (PStr ''s'')) = PNone then ''none'' else ''string'')))"
    by blast
  have f: "fst ?r = Inr (Some (resp_simple_error
        ''The ID specified in XADD must be greater than 0-0''))"
    by (subst x) simp
  from ty c[OF s] have ty1: "fst (CommandType_respond 0 [''TYPE'', ''s''] (snd ?r))
       = Inr (Some (resp_simple_string ''stream''))" by simp
  from tn c[OF refl] have tn1: "fst (CommandType_respond 0 [''TYPE'', ''s''] new_master)
       = Inr (Some (resp_simple_string ''none''))" by simp
  from a b f l ty1 tn1 show ?thesis by blast
qed


section \<open>Runs of commands\<close>

text \<open>
  C1. The ids of the entries XADD appends to a stream are meant to increase strictly in
  the numeric \<open>(ms, seq)\<close> order. \<open>Stream.add\<close> compares the ids as strings: after
  \<open>XADD s 10-0\<close>, \<open>XADD s 9-0\<close> is accepted, since \<open>'9-0' <= '10-0'\<close> is false for strings,
  and the stream holds \<open>10-0\<close> followed by \<open>9-0\<close>.
\<close>

theorem xadd_ids_not_increasing:
  "(let r1 = CommandXAdd_respond 0 [''XADD'', ''s'', ''10-0'', ''f'', ''v''] new_master;
        r2 = CommandXAdd_respond 0 [''XADD'', ''s'', ''9-0'', ''f'', ''v''] (snd r1)
    in fst r1 = Inr (Some (resp_bulk_string (PStr ''10-0'')))
     \<and> fst r2 = Inr (Some (resp_bulk_string (PStr ''9-0'')))
     \<and> stream (snd r2) ''s'' = Some [(''10-0'', [''f'', ''v'']), (''9-0'', [''f'', ''v''])])
   \<and> id_number ''10-0'' = Some (10, 0) \<and> id_number ''9-0'' = Some (9, 0)
   \<and> id_le (9, 0) (10, 0)"
  by (simp add: run_defs id_number_def dec_def id_le_def)

text \<open>
  C5. XRANGE is meant to return the stored entries whose id lies numerically between
  \<open>start\<close> and \<open>end\<close>. \<open>Stream.range\<close> compares strings: with the entries \<open>5-0\<close> and \<open>50-0\<close>
  stored, \<open>XRANGE s 6-0 50-0\<close> returns the empty array, although \<open>50-0\<close> is in the range.
\<close>

theorem xrange_misses_entry_in_range:
  "(let r1 = CommandXAdd_respond 0 [''XADD'', ''s'', ''5-0'', ''f'', ''v''] new_master;
        r2 = CommandXAdd_respond 0 [''XADD'', ''s'', ''50-0'', ''f'', ''v''] (snd r1)
    in fst r1 = Inr (Some (resp_bulk_string (PStr ''5-0'')))
     \<and> fst r2 = Inr (Some (resp_bulk_string (PStr ''50-0'')))
     \<and> stream (snd r2) ''s'' = Some [(''5-0'', [''f'', ''v'']), (''50-0'', [''f'', ''v''])]
     \<and> Stream_range (stream (snd r2)) ''s'' ''6-0'' ''50-0'' = Inr []
     \<and> fst (CommandXRange_respond [''XRANGE'', ''s'', ''6-0'', ''50-0''] (snd r2))
         = Inr (Some (''*0'' @ crlf)))
   \<and> id_number ''6-0'' = Some (6, 0) \<and> id_number ''50-0'' = Some (50, 0)
   \<and> id_le (6, 0) (50, 0) \<and> id_le (50, 0) (50, 0)"
  by (simp add: run_defs id_number_def dec_def id_le_def Stream_range_def
      CommandXRange_respond_def resp_array_def)

text \<open>
  C3. A pending stream trigger is meant to fire exactly when an XADD on one of its keys
  appends an entry whose resolved id is greater than the condition's id.
  \<open>CommandXAdd._respond\<close> calls \<open>check_stream_triggers\<close> with the id as the client wrote
  it, before \<open>Stream.add\<close> resolves or rejects it. First run: a reader blocks in
  \<open>XREAD BLOCK 5000 STREAMS s $\<close> on a stream whose last id is \<open>1-0\<close>; \<open>XADD s * f v\<close>
  appends \<open>1-1\<close> and the trigger's event stays unset, since \<open>'*' > '1-0'\<close> is false.
  Second run: a reader waits for ids above \<open>0-5\<close>; \<open>XADD s 1-0 f v\<close> is rejected, nothing
  is appended, and the trigger's event is set.
\<close>

theorem xadd_star_leaves_reader_blocked:
  "(let r1 = CommandXAdd_respond 0 [''XADD'', ''s'', ''1-0'', ''f'', ''v''] new_master;
        r2 = CommandXRread_block_begin [''XREAD'', ''BLOCK'', ''5000'', ''STREAMS'', ''s'', ''$'']
               (snd r1);
        r3 = CommandXAdd_respond 100 [''XADD'', ''s'', ''*'', ''f'', ''v''] (snd r2)
    in fst r2 = Inr [''XREAD'', ''BLOCK'', ''5000'', ''STREAMS'', ''s'', ''1-0'']
     \<and> stream_triggers (snd r2) = [\<lparr>event = False, conditions = [(''s'', ''1-0'')]\<rparr>]
     \<and> fst r3 = Inr (Some (resp_bulk_string (PStr ''1-1'')))
     \<and> stream (snd r3) ''s'' = Some [(''1-0'', [''f'', ''v'']), (''1-1'', [''f'', ''v''])]
     \<and> stream_triggers (snd r3) = [\<lparr>event = False, conditions = [(''s'', ''1-0'')]\<rparr>])
   \<and> (let r1 = CommandXAdd_respond 0 [''XADD'', ''s'', ''1-0'', ''f'', ''v''] new_master;
        r2 = CommandXRread_block_begin [''XREAD'', ''BLOCK'', ''5000'', ''STREAMS'', ''s'', ''0-5'']
               (snd r1);
        r3 = CommandXAdd_respond 100 [''XADD'', ''s'', ''1-0'', ''f'', ''v''] (snd r2)
    in fst r3 = Inr (Some (resp_simple_error
                 ''The ID specified in XADD is equal or smaller than the target stream top item''))
     \<and> stream (snd r3) ''s'' = Some [(''1-0'', [''f'', ''v''])]
     \<and> stream_triggers (snd r3) = [\<lparr>event = True, conditions = [(''s'', ''0-5'')]\<rparr>])"
  by (simp add: run_defs CommandXRread_block_begin_def to_pairs_def Stream_read_def
      StreamTrigger_def)

text \<open>
  C6. \<open>SET k v PX ms\<close> is meant to store the expiry \<open>now_ms + ms\<close>, and a GET at or after
  that time to reply \<open>$-1\<close> and remove the entry. With \<open>ms = 0\<close> the source computes
  \<open>px and (now + px)\<close>, which is 0, and \<open>Database.get\<close> takes an expiry of 0 for none:
  after \<open>SET k v PX 0\<close> at time 1000 the stored expiry is 0, not 1000, and GET at time
  2000 replies the value and keeps the entry.
\<close>

theorem set_px_zero_never_expires:
  "(let r1 = CommandSet_respond 1000 [''SET'', ''k'', ''v'', ''PX'', ''0''] new_master;
        r2 = CommandGet_respond 2000 [''GET'', ''k''] (snd r1)
    in fst r1 = Inr (Some (resp_simple_string ''OK''))
     \<and> store (snd r1) (PStr ''k'') = Some (PStr ''v'', Some 0)
     \<and> fst r2 = Inr (Some (resp_bulk_string (PStr ''v'')))
     \<and> store (snd r2) (PStr ''k'') = Some (PStr ''v'', Some 0))"
  by (simp add: run_defs CommandSet_respond_def CommandGet_respond_def upper_def
      Database_set_def Database_get_def propagate_command_def)


section \<open>WAIT and the replication offset of the master\<close>


lemma getack_length:
  "length (resp_array (strs (split_on (CHR '' '') ''REPLCONF GETACK *''))) = 37"
  by (simp add: resp_array_def strs_def resp_bulk_string_def py_len_def is_cont_def
      show_nat.simps digit_char_def crlf_def)

text \<open>
  C4, as the code has it. When WAIT takes its slow path with \<open>master_repl_offset > 0\<close>, it
  sends the \<open>REPLCONF GETACK *\<close> frame through \<open>propagate_command\<close>, which adds the
  frame's 37 bytes to \<open>master_repl_offset\<close> like any propagated command and writes the
  frame to every replica; the trigger keeps the offset read before the propagation as
  its target.
\<close>

theorem wait_getack_bumps_offset:
  assumes "CommandWait_begin array d = (Inr (Awaiting trigger timeout), d1)"
  shows "0 < master_repl_offset d
       \<and> master_repl_offset d1 = master_repl_offset d + 37
       \<and> master_offset trigger = master_repl_offset d
       \<and> replicas d1 = map (\<lambda>r. r\<lparr>writer := writer r @ resp_array (strs [''REPLCONF'', ''GETACK'', ''*''])\<rparr>) (replicas d)"
  using assms getack_length
  by (auto simp: CommandWait_begin_def Let_def propagate_command_def WaitTrigger_def
      split: if_splits list.splits sum.splits)

text \<open>
  The claim that the GETACK frame leaves \<open>master_repl_offset\<close> unchanged fails: after
  \<open>SET k v\<close> the offset is 27, and \<open>WAIT 1 500\<close>, with no replica at that offset, takes the
  slow path and leaves it at 64.
\<close>

theorem wait_getack_offset_counterexample:
  "master_repl_offset master_after_set = 27
   \<and> fst (CommandWait_begin [''WAIT'', ''1'', ''500''] master_after_set)
       = Inr (Awaiting (WaitTrigger 1 27) (1 / 2))
   \<and> master_repl_offset (snd (CommandWait_begin [''WAIT'', ''1'', ''500''] master_after_set)) = 64"
  by (simp add: master_after_set_def CommandSet_respond_def register_replica_def new_master_def
      replica_6380_def Database_set_def propagate_command_def pack_def resp_array_def strs_def
      resp_bulk_string_def py_len_def is_cont_def show_nat.simps digit_char_def crlf_def
      CommandWait_begin_def py_int_def strip_def is_space_def py_nat_def is_digit_def
      digit_val_def replication_count_acks_by_offset_def Let_def WaitTrigger_def)

theorem wait_getack_bumps_offset_witness:
  "0 < master_repl_offset master_after_set
   \<and> master_repl_offset (snd (CommandWait_begin [''WAIT'', ''1'', ''500''] master_after_set))
       = master_repl_offset master_after_set + 37"
proof -
  have "CommandWait_begin [''WAIT'', ''1'', ''500''] master_after_set
      = (Inr (Awaiting (WaitTrigger 1 27) (1 / 2)),
         snd (CommandWait_begin [''WAIT'', ''1'', ''500''] master_after_set))"
    by (simp add: master_after_set_def CommandSet_respond_def register_replica_def new_master_def
      replica_6380_def Database_set_def propagate_command_def pack_def resp_array_def strs_def
      resp_bulk_string_def py_len_def is_cont_def show_nat.simps digit_char_def crlf_def
      CommandWait_begin_def py_int_def strip_def is_space_def py_nat_def is_digit_def
      digit_val_def replication_count_acks_by_offset_def Let_def WaitTrigger_def)
  from wait_getack_bumps_offset[OF this] show ?thesis by simp
qed


section \<open>The replication offset of a replica\<close>


lemma execute_offset:
  assumes "respond d = (Inr response, d1)" and "role d1 = slave"
  shows "snd (snd (Command_execute respond array connection d))
           = d1\<lparr>slave_repl_offset := slave_repl_offset d1 + int (length (pack array))\<rparr>"
  using assms by (simp add: Command_execute_def inc_offset_def Let_def split: option.splits)

lemma Database_get_fields:
  "role (snd (Database_get now d key)) = role d"
  "slave_repl_offset (snd (Database_get now d key)) = slave_repl_offset d"
  by (auto simp: Database_get_def split: option.splits)

text \<open>
  C8, as the code has it. On a replica \<open>Command.execute\<close> tests the role only, so every
  command that executes without raising adds the byte length of its re-encoded array
  (\<open>resp.array(self.array)\<close>) to \<open>slave_repl_offset\<close>, whichever connection it arrived on:
  PING, GET, TYPE and SET do, and so does \<open>REPLCONF GETACK *\<close>, whose reply, computed
  before the increment, carries the offset as it was before this frame.
\<close>

theorem replica_offset_counts_every_command:
  assumes "role d = slave"
  shows "slave_repl_offset (snd (snd (Command_execute CommandPing_respond array connection d)))
           = slave_repl_offset d + int (length (pack array))
       \<and> (2 \<le> length array \<longrightarrow>
            slave_repl_offset (snd (snd (Command_execute (CommandGet_respond now array) array connection d)))
              = slave_repl_offset d + int (length (pack array)))
       \<and> (2 \<le> length array \<longrightarrow>
            slave_repl_offset (snd (snd (Command_execute (CommandType_respond now array) array connection d)))
              = slave_repl_offset d + int (length (pack array)))
       \<and> (length array = 3 \<longrightarrow>
            slave_repl_offset (snd (snd (Command_execute (CommandSet_respond now array) array connection d)))
              = slave_repl_offset d + int (length (pack array)))
       \<and> Command_execute (CommandReplConf_respond [''REPLCONF'', ''GETACK'', ''*''] connection)
            [''REPLCONF'', ''GETACK'', ''*''] connection d
           = (None,
              connection\<lparr>writer := writer connection
                 @ resp_array [Leaf (PStr ''REPLCONF''), Leaf (PStr ''ACK''),
                               Leaf (PInt (slave_repl_offset d))]\<rparr>,
              d\<lparr>slave_repl_offset := slave_repl_offset d + 37\<rparr>)"
proof -
  have ping: "CommandPing_respond d = (Inr None, d)"
    using assms by (simp add: CommandPing_respond_def)
  have 1: "slave_repl_offset (snd (snd (Command_execute CommandPing_respond array connection d)))
           = slave_repl_offset d + int (length (pack array))"
    using execute_offset[where respond=CommandPing_respond and d=d and ?d1.0=d, OF ping assms, of array connection] by simp
  have 2: "slave_repl_offset (snd (snd (Command_execute (CommandGet_respond now array) array connection d)))
              = slave_repl_offset d + int (length (pack array))" if "2 \<le> length array"
  proof -
    obtain v d1 where g: "Database_get now d (PStr (array ! 1)) = (v, d1)"
      by (cases "Database_get now d (PStr (array ! 1))")
    have f: "role d1 = slave" "slave_repl_offset d1 = slave_repl_offset d"
      using Database_get_fields[of now d "PStr (array ! 1)"] g assms by simp_all
    have "CommandGet_respond now array d = (Inr (Some (resp_bulk_string v)), d1)"
      using that g by (simp add: CommandGet_respond_def)
    from execute_offset[where respond="CommandGet_respond now array" and d=d, OF this f(1), of array connection] f(2)
    show ?thesis by simp
  qed
  have 3: "slave_repl_offset (snd (snd (Command_execute (CommandType_respond now array) array connection d)))
              = slave_repl_offset d + int (length (pack array))" if "2 \<le> length array"
  proof -
    obtain v d1 where g: "Database_get now d (PStr (array ! 1)) = (v, d1)"
      by (cases "Database_get now d (PStr (array ! 1))")
    have f: "role d1 = slave" "slave_repl_offset d1 = slave_repl_offset d"
      using Database_get_fields[of now d "PStr (array ! 1)"] g assms by simp_all
    have "\<exists>r. CommandType_respond now array d = (Inr (Some r), d1)"
      using that g by (auto simp: CommandType_respond_def Let_def)
    then obtain r where "CommandType_respond now array d = (Inr (Some r), d1)" ..
    from execute_offset[where respond="CommandType_respond now array" and d=d, OF this f(1), of array connection] f(2)
    show ?thesis by simp
  qed
  have 4: "slave_repl_offset (snd (snd (Command_execute (CommandSet_respond now array) array connection d)))
              = slave_repl_offset d + int (length (pack array))" if "length array = 3"
  proof -
    have "\<exists>c k v. array = [c, k, v]"
      using that by (auto simp: length_Suc_conv numeral_3_eq_3)
    then obtain c k v where a: "array = [c, k, v]" by blast
    have "CommandSet_respond now array d = (Inr None, Database_set d (PStr k) (PStr v) None)"
      using assms by (simp add: a CommandSet_respond_def Database_set_def)
    from execute_offset[where respond="CommandSet_respond now array" and d=d, OF this, of array connection] assms
    show ?thesis by (simp add: Database_set_def)
  qed
  have len: "length (pack [''REPLCONF'', ''GETACK'', ''*'']) = 37"
    by (simp add: pack_def resp_array_def strs_def resp_bulk_string_def py_len_def is_cont_def
      show_nat.simps digit_char_def crlf_def)
  have ne: "resp_array [Leaf (PStr ''REPLCONF''), Leaf (PStr ''ACK''),
                               Leaf (PInt (slave_repl_offset d))] \<noteq> []"
    by (simp add: resp_array_def)
  have 5: "Command_execute (CommandReplConf_respond [''REPLCONF'', ''GETACK'', ''*''] connection)
            [''REPLCONF'', ''GETACK'', ''*''] connection d
           = (None,
              connection\<lparr>writer := writer connection
                 @ resp_array [Leaf (PStr ''REPLCONF''), Leaf (PStr ''ACK''),
                               Leaf (PInt (slave_repl_offset d))]\<rparr>,
              d\<lparr>slave_repl_offset := slave_repl_offset d + 37\<rparr>)"
    using assms len ne
    by (simp add: Command_execute_def CommandReplConf_respond_def upper_def inc_offset_def)
  from 1 2 3 4 5 show ?thesis by blast
qed

text \<open>
  The claim that a command from an ordinary client leaves \<open>slave_repl_offset\<close> unchanged
  fails: \<open>GET k\<close> from a client of a fresh replica is answered \<open>$-1\<close> and moves the offset
  from 0 to 20, the length of the frame.
\<close>

theorem client_command_counterexample:
  "role new_replica = slave \<and> slave_repl_offset new_replica = 0
   \<and> Command_execute (CommandGet_respond 0 [''GET'', ''k'']) [''GET'', ''k''] client new_replica
       = (None, client\<lparr>writer := ''$-1'' @ crlf\<rparr>, new_replica\<lparr>slave_repl_offset := 20\<rparr>)"
  by (simp add: Command_execute_def CommandGet_respond_def Database_get_def new_replica_def
      new_master_def client_def inc_offset_def pack_def resp_array_def strs_def
      resp_bulk_string_def py_len_def is_cont_def show_nat.simps digit_char_def crlf_def)

theorem replica_offset_counts_every_command_witness:
  "role new_replica = slave
   \<and> slave_repl_offset (snd (snd (Command_execute (CommandGet_respond 0 [''GET'', ''k''])
         [''GET'', ''k''] client new_replica))) = 20
   \<and> slave_repl_offset (snd (snd (Command_execute (CommandSet_respond 0 [''SET'', ''k'', ''v''])
         [''SET'', ''k'', ''v''] client new_replica))) = 27"
proof -
  have r: "role new_replica = slave" by (simp add: new_replica_def)
  have l: "int (length (pack [''GET'', ''k''])) = 20" "int (length (pack [''SET'', ''k'', ''v''])) = 27"
    by (simp_all add: pack_def resp_array_def strs_def
      resp_bulk_string_def py_len_def is_cont_def show_nat.simps digit_char_def crlf_def)
  have z: "slave_repl_offset new_replica = 0" by (simp add: new_replica_def new_master_def)
  from replica_offset_counts_every_command[OF r, of "[''GET'', ''k'']" client 0]
       replica_offset_counts_every_command[OF r, of "[''SET'', ''k'', ''v'']" client 0]
       r l z
  show ?thesis by simp
qed



section \<open>Loading an RDB file\<close>


lemmas rdb_defs = DatabaseMaster_init_def Persistence_init_def file_read_def decode_def
  utf8_ok.simps utf8_first_def py_int_def strip_def is_space_def py_nat_def is_digit_def
  digit_val_def Persistence_parse_all.simps Persistence_parse_next_def
  Persistence_set_kv_pair_def Persistence_read_string_def Persistence_read_length_def
  Persistence_set_checksum_def Database_set_def Let_def drop_bit_eq_div

lemma read_length_unsupported:
  assumes "drop_bit 6 (of_char b :: nat) = 1 \<or> drop_bit 6 (of_char b :: nat) = 2"
  shows "Persistence_read_length (p\<lparr>rdb_file := b # bs\<rparr>) = Inr (LNone, p\<lparr>rdb_file := bs\<rparr>)"
  using assms by (auto simp: Persistence_read_length_def file_read_def Let_def)

text \<open>
  C9, as the code has it. A length byte whose top two bits are 01 or 10 is not a parse
  failure: \<open>_read_length\<close> consumes the byte and returns \<open>None\<close>, \<open>_read_string\<close> returns
  \<open>None\<close> without reading further, and the loader goes on with the next byte, so that a
  key-value record whose key is encoded so is stored under the key \<open>None\<close>. A failure the
  loader does raise is not caught by \<open>Database.__init__\<close>: a file that does not begin
  with \<open>REDIS\<close> ends the constructor with \<open>AssertionError\<close>, and so does any other
  exception of the loader, so no database is built.
\<close>

theorem unsupported_length_is_skipped:
  assumes "drop_bit 6 (of_char b :: nat) = 1 \<or> drop_bit 6 (of_char b :: nat) = 2"
  shows "Persistence_read_length (p\<lparr>rdb_file := b # bs\<rparr>) = Inr (LNone, p\<lparr>rdb_file := bs\<rparr>)
       \<and> Persistence_read_string (p\<lparr>rdb_file := b # bs\<rparr>) = Inr (PNone, p\<lparr>rdb_file := bs\<rparr>)
       \<and> Persistence_set_kv_pair px (p\<lparr>rdb_file := b # bs\<rparr>)
           = (case Persistence_read_string (p\<lparr>rdb_file := bs\<rparr>) of
                Inl e \<Rightarrow> Inl e
              | Inr (v, p2) \<Rightarrow> Inr (p2\<lparr>db := Database_set (db p2) PNone v px\<rparr>))
       \<and> (take 5 content \<noteq> ''REDIS'' \<longrightarrow>
            DatabaseMaster_init (Some content) = Some (Inl AssertionError))
       \<and> (Persistence_init new_master content = Some (Inl e) \<longrightarrow>
            DatabaseMaster_init (Some content) = Some (Inl e))"
proof -
  note l = read_length_unsupported[OF assms, where p=p and bs=bs]
  have s: "Persistence_read_string (p\<lparr>rdb_file := b # bs\<rparr>) = Inr (PNone, p\<lparr>rdb_file := bs\<rparr>)"
    by (simp add: Persistence_read_string_def l)
  have k: "Persistence_set_kv_pair px (p\<lparr>rdb_file := b # bs\<rparr>)
           = (case Persistence_read_string (p\<lparr>rdb_file := bs\<rparr>) of
                Inl e \<Rightarrow> Inl e
              | Inr (v, p2) \<Rightarrow> Inr (p2\<lparr>db := Database_set (db p2) PNone v px\<rparr>))"
    by (simp add: Persistence_set_kv_pair_def s split: sum.splits)
  have m: "take 5 content \<noteq> ''REDIS'' \<longrightarrow>
            DatabaseMaster_init (Some content) = Some (Inl AssertionError)"
    by (simp add: DatabaseMaster_init_def Persistence_init_def file_read_def)
  have e: "Persistence_init new_master content = Some (Inl e) \<longrightarrow>
            DatabaseMaster_init (Some content) = Some (Inl e)"
    by (simp add: DatabaseMaster_init_def new_master_def)
  from l s k m e show ?thesis by blast
qed

text \<open>
  The claim that the loader aborts on an unsupported length encoding and that the
  server starts with an empty store whatever the file fails: on \<open>rdb_unsupported\<close> the
  loader runs to the end and the store holds an entry under \<open>None\<close>; on a file with a
  wrong magic, or one that ends inside a record, the constructor raises.
\<close>

theorem rdb_failure_counterexample:
  "rdb_unsupported = ''REDIS0011'' @ [CHR 0x00, CHR 0x40, CHR 0x01, CHR ''a'', CHR 0xFF] @ ''12345678''
   \<and> drop_bit 6 (of_char (CHR 0x40) :: nat) = 1
   \<and> DatabaseMaster_init (Some rdb_unsupported)
       = Some (Inr (new_master\<lparr>store := [PNone \<mapsto> (PStr ''a'', None)]\<rparr>))
   \<and> DatabaseMaster_init (Some ''REDIX0011'') = Some (Inl AssertionError)
   \<and> DatabaseMaster_init (Some (''REDIS0011'' @ [CHR 0x00, CHR 0x01]))
       = Some (Inl StructError)"
  by (simp add: rdb_unsupported_def rdb_defs new_master_def)

theorem unsupported_length_is_skipped_witness:
  "drop_bit 6 (of_char (CHR 0x40) :: nat) = 1
   \<and> Persistence_read_string
        \<lparr>rdb_file = [CHR 0x40, CHR 0x01, CHR ''a''], db = new_master, aux = Map.empty,
         checksum = None, db_size = None, expiry_size = None, db_number = None, version = None\<rparr>
       = Inr (PNone,
        \<lparr>rdb_file = [CHR 0x01, CHR ''a''], db = new_master, aux = Map.empty,
         checksum = None, db_size = None, expiry_size = None, db_number = None, version = None\<rparr>)
   \<and> take 5 ''REDIX0011'' \<noteq> ''REDIS''
   \<and> Persistence_init new_master ''REDIX0011'' = Some (Inl AssertionError)
   \<and> DatabaseMaster_init (Some ''REDIX0011'') = Some (Inl AssertionError)"
proof -
  have a: "drop_bit 6 (of_char (CHR 0x40) :: nat) = 1 \<or> drop_bit 6 (of_char (CHR 0x40) :: nat) = 2"
    by (simp add: drop_bit_eq_div)
  have b: "Persistence_init new_master ''REDIX0011'' = Some (Inl AssertionError)"
    by (simp add: Persistence_init_def file_read_def)
  from unsupported_length_is_skipped[OF a,
      where p="\<lparr>rdb_file = [], db = new_master, aux = Map.empty,
         checksum = None, db_size = None, expiry_size = None, db_number = None, version = None\<rparr>"
        and bs="[CHR 0x01, CHR ''a'']" and px=None and content="''REDIX0011''"
        and e=AssertionError] b
  show ?thesis by (simp add: drop_bit_eq_div)
qed



section \<open>Integers written and read back\<close>



lemma digit_char_props:
  assumes "d < 10"
  shows "is_digit (digit_char d)" and "digit_val (digit_char d) = d"
proof -
  from assms have "d = 0 \<or> d = 1 \<or> d = 2 \<or> d = 3 \<or> d = 4 \<or> d = 5 \<or> d = 6 \<or> d = 7 \<or> d = 8 \<or> d = 9"
    by arith
  then show "is_digit (digit_char d)" and "digit_val (digit_char d) = d"
    by (auto simp: digit_char_def is_digit_def digit_val_def)
qed

lemma show_nat_digits: "list_all is_digit (show_nat n) \<and> show_nat n \<noteq> []"
proof (induction n rule: show_nat.induct)
  case (1 n)
  show ?case
  proof (cases "n < 10")
    case True
    then show ?thesis by (subst (1 2) show_nat.simps) (simp add: digit_char_props)
  next
    case False
    with 1 show ?thesis by (subst (1 2) show_nat.simps) (simp add: digit_char_props)
  qed
qed

lemma parse_digits_append:
  "list_all is_digit xs \<Longrightarrow>
   parse_digits acc (xs @ ys) = parse_digits (foldl (\<lambda>a c. 10 * a + digit_val c) acc xs) ys"
  by (induction xs arbitrary: acc) simp_all

lemma parse_digits_all:
  "list_all is_digit xs \<Longrightarrow> parse_digits acc xs = Some (foldl (\<lambda>a c. 10 * a + digit_val c) acc xs)"
  using parse_digits_append[of xs acc "[]"] by simp

lemma dec_show_nat: "dec (show_nat n) = n"
proof (induction n rule: show_nat.induct)
  case (1 n)
  show ?case
  proof (cases "n < 10")
    case True
    then show ?thesis by (subst show_nat.simps) (simp add: dec_def digit_char_props)
  next
    case False
    with 1 have "dec (show_nat (n div 10)) = n div 10" by simp
    with False show ?thesis
      by (subst show_nat.simps) (simp add: dec_def digit_char_props)
  qed
qed

lemma py_nat_digits:
  assumes "list_all is_digit s" and "s \<noteq> []"
  shows "py_nat s = Some (dec s)"
proof -
  from assms obtain c cs where s: "s = c # cs" by (cases s) auto
  with assms show ?thesis
    by (simp add: py_nat_def dec_def parse_digits_all)
qed

lemma is_digit_plain:
  assumes "is_digit c"
  shows "\<not> is_space c" and "c \<noteq> CHR ''-''" and "c \<noteq> CHR ''+''" and "c < CHR 0x80"
    and "c \<noteq> CHR 0x0D" and "c \<noteq> CHR ''*''"
proof -
  have "CHR ''9'' < CHR 0x80" by simp
  with assms show "c < CHR 0x80" unfolding is_digit_def by (meson le_less_trans)
  from assms show "\<not> is_space c" and "c \<noteq> CHR ''-''" and "c \<noteq> CHR ''+''"
    and "c \<noteq> CHR 0x0D" and "c \<noteq> CHR ''*''"
    by (auto simp: is_digit_def is_space_def)
qed

lemma strip_id:
  assumes "list_all (\<lambda>c. \<not> is_space c) s"
  shows "strip s = s"
proof -
  have d: "dropWhile is_space t = t" if "list_all (\<lambda>c. \<not> is_space c) t" for t
    using that by (cases t) auto
  from assms have "list_all (\<lambda>c. \<not> is_space c) (rev s)" by (simp add: list_all_iff)
  with assms show ?thesis by (simp add: strip_def d)
qed

lemma py_int_digits:
  assumes "list_all is_digit s" and "s \<noteq> []"
  shows "py_int s = Inr (int (dec s))"
proof -
  from assms(1) have "list_all (\<lambda>c. \<not> is_space c) s"
    by (auto simp: list_all_iff is_digit_plain)
  then have st: "strip s = s" by (rule strip_id)
  from assms obtain c cs where s: "s = c # cs" by (cases s) auto
  with assms have c: "is_digit c" by simp
  from py_nat_digits[OF assms] s c st show ?thesis
    by (simp add: py_int_def is_digit_plain)
qed

lemma py_int_show_nat: "py_int (show_nat n) = Inr (int n)"
  using py_int_digits[of "show_nat n"] show_nat_digits[of n] by (simp add: dec_show_nat)


section \<open>The RESP round trip\<close>

lemma index_crlf_first:
  "CHR 0x0D \<notin> set xs \<Longrightarrow> index_crlf (xs @ crlf @ rest) = Some (length xs)"
proof (induction xs)
  case Nil
  show ?case by (simp add: crlf_def)
next
  case (Cons x xs)
  then have ih: "index_crlf (xs @ crlf @ rest) = Some (length xs)" and x: "x \<noteq> CHR 0x0D"
    by auto
  obtain b r where br: "xs @ crlf @ rest = b # r"
    by (cases "xs @ crlf @ rest") (auto simp: crlf_def)
  with ih x show ?case by simp
qed

lemma read_token_first:
  "CHR 0x0D \<notin> set xs \<Longrightarrow> resp_read_token (xs @ crlf @ rest) = Inr (xs, rest)"
proof -
  assume a: "CHR 0x0D \<notin> set xs"
  have l: "length crlf = 2" by (simp add: crlf_def)
  show ?thesis
    by (simp add: resp_read_token_def index_crlf_first[OF a] l)
qed

lemma ascii_utf8_ok: "ascii s \<Longrightarrow> utf8_ok s"
proof (induction s)
  case Nil
  show ?case by (subst utf8_ok.simps) simp
next
  case (Cons a s)
  then have "a < CHR 0x80" and "utf8_ok s" by (simp_all add: ascii_def)
  then show ?case by (subst utf8_ok.simps) (simp add: utf8_first_def)
qed

lemma ascii_decode: "ascii s \<Longrightarrow> decode s = Inr s"
  by (simp add: decode_def ascii_utf8_ok)

lemma ascii_py_len: "ascii s \<Longrightarrow> py_len s = length s"
proof -
  have "\<not> is_cont c" if "c < CHR 0x80" for c
    using that by (auto simp: is_cont_def)
  then show "ascii s \<Longrightarrow> py_len s = length s"
    by (simp add: py_len_def ascii_def list_all_iff)
qed

lemma digits_ascii: "list_all is_digit s \<Longrightarrow> ascii s"
  by (auto simp: ascii_def list_all_iff is_digit_plain)

lemma show_nat_no_cr: "CHR 0x0D \<notin> set (show_nat n)"
proof
  assume "CHR 0x0D \<in> set (show_nat n)"
  with show_nat_digits[of n] have "is_digit (CHR 0x0D)" by (simp add: list_all_iff)
  then show False by (simp add: is_digit_def)
qed

lemma read_bulk_string_encoded:
  assumes "ascii s"
  shows "resp_read_bulk_string (resp_bulk_string (PStr s) @ rest) = Inr (s, rest)"
proof -
  let ?n = "show_nat (length s)"
  have tok: "resp_read_token ((''$'' @ ?n) @ crlf @ (s @ crlf @ rest)) = Inr (''$'' @ ?n, s @ crlf @ rest)"
    by (rule read_token_first) (simp add: show_nat_no_cr)
  have dn: "decode ?n = Inr ?n"
    using show_nat_digits[of "length s"] by (simp add: ascii_decode digits_ascii)
  have sl: "slice_to (s @ crlf @ rest) (int (length s)) = s"
           "slice_from (s @ crlf @ rest) (int (length s) + 2) = rest"
    by (simp_all add: slice_to_def slice_from_def crlf_def nat_add_distrib)
  from tok dn sl assms show ?thesis
    by (simp add: resp_read_bulk_string_def resp_bulk_string_def ascii_py_len py_int_show_nat
        ascii_decode)
qed

lemma read_bulk_strings_encoded:
  "list_all ascii array \<Longrightarrow>
   read_bulk_strings (length array) (concat (map resp_array_item (strs array)) @ rest)
     = Inr (array, rest)"
proof (induction array)
  case Nil
  show ?case by (simp add: strs_def)
next
  case (Cons s array)
  then have a: "ascii s" and ih: "read_bulk_strings (length array)
       (concat (map resp_array_item (strs array)) @ rest) = Inr (array, rest)"
    by (simp_all add: strs_def)
  have "concat (map resp_array_item (strs (s # array))) @ rest
      = resp_bulk_string (PStr s) @ (concat (map resp_array_item (strs array)) @ rest)"
    by (simp add: strs_def)
  with read_bulk_string_encoded[OF a] ih show ?case by simp
qed

lemma read_array_encoded:
  assumes "list_all ascii array"
  shows "resp_read_array (resp_array (strs array) @ rest) = Inr (array, rest)"
proof -
  let ?n = "show_nat (length array)"
  let ?body = "concat (map resp_array_item (strs array)) @ rest"
  have e: "resp_array (strs array) @ rest = CHR ''*'' # (?n @ crlf @ ?body)"
    by (simp add: resp_array_def strs_def)
  have tok: "resp_read_token (?n @ crlf @ ?body) = Inr (?n, ?body)"
    by (rule read_token_first) (rule show_nat_no_cr)
  have dn: "decode ?n = Inr ?n"
    using show_nat_digits[of "length array"] by (simp add: ascii_decode digits_ascii)
  from tok dn read_bulk_strings_encoded[OF assms, of rest] show ?thesis
    by (simp add: resp_read_array_def e py_int_show_nat)
qed

lemma parse_empty: "resp_parse [] = Some ([], None)"
  by (subst resp_parse.simps) simp

lemma parse_stuck:
  assumes "buffer \<noteq> []" and "take 1 buffer \<noteq> ''*''" and "take 1 buffer \<noteq> ''+''"
    and "\<not> contains ''REDIS'' buffer"
  shows "resp_parse buffer = None"
proof (rule ccontr)
  let ?stuck = "\<lambda>x. x \<noteq> [] \<and> take 1 x \<noteq> ''*'' \<and> take 1 x \<noteq> ''+'' \<and> \<not> contains ''REDIS'' x"
  assume "resp_parse buffer \<noteq> None"
  then obtain y where y: "resp_parse buffer = Some y" by auto
  have "\<not> ?stuck buffer"
  proof (rule resp_parse.raw_induct[where P="\<lambda>x y. \<not> ?stuck x", OF _ y], goal_cases)
    case (1 f b r)
    show ?case
    proof
      assume st: "?stuck b"
      with 1(2) have "f b = Some r" by simp
      from 1(1)[OF this] st show False by blast
    qed
  qed
  with assms show False by blast
qed

lemma parse_array_step:
  assumes "take 1 buffer = ''*''"
  shows "resp_parse buffer =
     (case resp_read_array buffer of
        Inl e \<Rightarrow> Some ([], Some e)
      | Inr (array, buffer1) \<Rightarrow>
          (case Command_parse array of
             Inl e \<Rightarrow> Some ([], Some e)
           | Inr command \<Rightarrow>
               Option.bind (resp_parse buffer1) (\<lambda>r. Some (command # fst r, snd r))))"
proof -
  from assms have ne: "buffer \<noteq> []" by auto
  show ?thesis
    by (subst resp_parse.simps) (simp only: ne assms if_False if_True simp_thms)
qed

text \<open>
  C7, as the code has it. The decoder reads what the server receives: arrays of
  non-nil bulk strings, simple strings and the RDB blob. For every array of ASCII
  strings, \<open>_read_array\<close> on the encoded bytes gives back the same list of strings and an
  empty remainder, and \<open>parse\<close> returns, having yielded one command that carries the
  array (for the empty array, \<open>Command.parse\<close> raises \<open>IndexError\<close> instead).
\<close>

theorem array_round_trip:
  assumes "list_all ascii array"
  shows "resp_read_array (resp_array (strs array)) = Inr (array, [])
       \<and> resp_parse (resp_array (strs array))
           = Some (case Command_parse array of
                     Inl e \<Rightarrow> ([], Some e)
                   | Inr command \<Rightarrow> ([command], None))
       \<and> (array \<noteq> [] \<longrightarrow> map snd (fst (the (resp_parse (resp_array (strs array))))) = [array])"
proof -
  have r: "resp_read_array (resp_array (strs array)) = Inr (array, [])"
    using read_array_encoded[OF assms, of "[]"] by simp
  have h: "take 1 (resp_array (strs array)) = ''*''"
    by (simp add: resp_array_def)
  have p: "resp_parse (resp_array (strs array))
           = Some (case Command_parse array of
                     Inl e \<Rightarrow> ([], Some e)
                   | Inr command \<Rightarrow> ([command], None))"
    by (simp add: parse_array_step[OF h] r parse_empty split: sum.splits)
  have "map snd (fst (the (resp_parse (resp_array (strs array))))) = [array]" if "array \<noteq> []"
  proof -
    from that obtain a list where "array = a # list" by (cases array) auto
    then obtain cls where "Command_parse array = Inr (cls, array)"
      by (simp add: Command_parse_def)
    with p show ?thesis by simp
  qed
  with r p show ?thesis by blast
qed

text \<open>
  The claim that every encoded value is decoded to itself fails outside arrays of
  non-nil bulk strings: on an encoded integer or bulk string, nil or not, no branch of
  \<open>parse\<close> applies and its loop never ends; an encoded simple string is consumed and
  nothing is yielded; a nil inside an array is read back as the empty string.
\<close>

theorem round_trip_counterexample:
  "resp_parse (resp_integer 5) = None
   \<and> resp_parse (resp_bulk_string (PStr ''hi'')) = None
   \<and> resp_parse (resp_bulk_string PNone) = None
   \<and> resp_parse (resp_simple_string ''OK'') = Some ([], None)
   \<and> resp_read_array (resp_array [Leaf (PStr ''k''), Leaf PNone]) = Inr ([''k'', []], [])"
proof -
  have 1: "resp_parse (resp_integer 5) = None"
    by (rule parse_stuck)
       (simp_all add: resp_integer_def show_int_def show_nat.simps digit_char_def crlf_def)
  have 2: "resp_parse (resp_bulk_string (PStr ''hi'')) = None"
    by (rule parse_stuck)
       (simp_all add: resp_bulk_string_def py_len_def is_cont_def show_nat.simps digit_char_def
          crlf_def)
  have 3: "resp_parse (resp_bulk_string PNone) = None"
    by (rule parse_stuck) (simp_all add: resp_bulk_string_def crlf_def)
  have 4: "resp_parse (resp_simple_string ''OK'') = Some ([], None)"
    by (subst resp_parse.simps)
       (simp add: resp_simple_string_def crlf_def resp_read_token_def parse_empty)
  have 5: "resp_read_array (resp_array [Leaf (PStr ''k''), Leaf PNone]) = Inr ([''k'', []], [])"
    by (simp add: resp_array_def resp_bulk_string_def py_len_def is_cont_def show_nat.simps
        digit_char_def crlf_def resp_read_array_def resp_read_token_def decode_def
        utf8_ok.simps utf8_first_def py_int_def strip_def is_space_def py_nat_def is_digit_def
        digit_val_def resp_read_bulk_string_def slice_to_def slice_from_def
        numeral_2_eq_2)
  from 1 2 3 4 5 show ?thesis by blast
qed

theorem array_round_trip_witness:
  "list_all ascii [''SET'', ''k'', ''v'']
   \<and> resp_read_array (resp_array (strs [''SET'', ''k'', ''v''])) = Inr ([''SET'', ''k'', ''v''], [])
   \<and> resp_parse (resp_array (strs [''SET'', ''k'', ''v'']))
       = Some ([(CommandSet, [''SET'', ''k'', ''v''])], None)"
proof -
  have a: "list_all ascii [''SET'', ''k'', ''v'']" by (simp add: ascii_def)
  have c: "Command_parse [''SET'', ''k'', ''v''] = Inr (CommandSet, [''SET'', ''k'', ''v''])"
    by (simp add: Command_parse_def upper_def)
  from array_round_trip[OF a] a c show ?thesis by simp
qed



section \<open>Explicit ids: the string order and the numeric order\<close>























section \<open>The same commands on other inputs\<close>


text \<open>The sample master is the one the constructor builds when there is no RDB file.\<close>

lemma new_master_init: "DatabaseMaster_init None = Some (Inr new_master)"
  by (simp add: DatabaseMaster_init_def new_master_def)

text \<open>
  With \<open>ms > 0\<close> (and a clock that is not negative) SET with PX stores the expiry
  \<open>now + ms\<close>, and a GET at or after that time replies \<open>$-1\<close> and removes the entry.
\<close>

lemma set_px_positive_expires:
  assumes "py_int a = Inr ms" and "0 < ms" and "0 \<le> now" and "upper p = ''PX''"
    and "now + real_of_int ms \<le> now1"
  shows "(let r1 = CommandSet_respond now [c, k, v, p, a] d;
              r2 = CommandGet_respond now1 [g, k] (snd r1)
          in store (snd r1) (PStr k) = Some (PStr v, Some (now + real_of_int ms))
           \<and> fst r2 = Inr (Some (''$-1'' @ crlf))
           \<and> store (snd r2) (PStr k) = None)"
  using assms
  by (cases "role d")
     (simp_all add: CommandSet_respond_def CommandGet_respond_def Database_set_def
        Database_get_def propagate_command_def Let_def resp_bulk_string_def)

lemma set_px_positive_expires_witness:
  "(let r1 = CommandSet_respond 1000 [''SET'', ''k'', ''v'', ''px'', ''100''] new_master;
        r2 = CommandGet_respond 1100 [''GET'', ''k''] (snd r1)
    in store (snd r1) (PStr ''k'') = Some (PStr ''v'', Some 1100)
     \<and> fst r2 = Inr (Some (''$-1'' @ crlf))
     \<and> store (snd r2) (PStr ''k'') = None)"
proof -
  have a: "py_int ''100'' = Inr 100"
    by (simp add: py_int_def strip_def is_space_def py_nat_def is_digit_def digit_val_def)
  have b: "upper ''px'' = ''PX''" by (simp add: upper_def)
  from set_px_positive_expires[OF a _ _ b, of 1000 1100 "''SET''" "''k''" "''v''" new_master "''GET''"]
  show ?thesis by simp
qed

text \<open>
  With ids of one digit per component the string order is the numeric order: after
  XADD of \<open>1-0\<close>, \<open>2-0\<close> and \<open>3-0\<close>, \<open>XRANGE s 1-0 2-0\<close> returns the first two entries in
  order, and \<open>XRANGE s - +\<close> all three.
\<close>

lemma xrange_three_entries:
  "(let r1 = CommandXAdd_respond 0 [''XADD'', ''s'', ''1-0'', ''f'', ''v''] new_master;
        r2 = CommandXAdd_respond 0 [''XADD'', ''s'', ''2-0'', ''f'', ''v''] (snd r1);
        r3 = CommandXAdd_respond 0 [''XADD'', ''s'', ''3-0'', ''f'', ''v''] (snd r2)
    in fst r3 = Inr (Some (resp_bulk_string (PStr ''3-0'')))
     \<and> Stream_range (stream (snd r3)) ''s'' ''1-0'' ''2-0''
         = Inr [(''1-0'', [''f'', ''v'']), (''2-0'', [''f'', ''v''])]
     \<and> Stream_range (stream (snd r3)) ''s'' ''-'' ''+''
         = Inr [(''1-0'', [''f'', ''v'']), (''2-0'', [''f'', ''v'']), (''3-0'', [''f'', ''v''])])"
  by (simp add: run_defs Stream_range_def)

text \<open>
  On an empty stream \<open>XADD s 0-*\<close> replies \<open>0-1\<close>, a second one \<open>0-2\<close>, and \<open>XADD s 0-0\<close>
  is then rejected.
\<close>

lemma xadd_partial_ids:
  "(let r1 = CommandXAdd_respond 0 [''XADD'', ''s'', ''0-*'', ''f'', ''v''] new_master;
        r2 = CommandXAdd_respond 0 [''XADD'', ''s'', ''0-*'', ''f'', ''v''] (snd r1);
        r3 = CommandXAdd_respond 0 [''XADD'', ''s'', ''0-0'', ''f'', ''v''] (snd r2)
    in fst r1 = Inr (Some (''$3'' @ crlf @ ''0-1'' @ crlf))
     \<and> fst r2 = Inr (Some (''$3'' @ crlf @ ''0-2'' @ crlf))
     \<and> fst r3 = Inr (Some (''-ERR The ID specified in XADD must be greater than 0-0'' @ crlf)))"
  by (simp add: run_defs)


end
